theory Spec2Isabelle
  imports Main "HOL-Library.Word" "HOL-Library.Multiset"
begin

section \<open>Basic types\<close>

text \<open>
  \<open>common.Hash\<close> is a 32-byte array, \<open>common.Address\<close> a 20-byte array, \<open>uint64\<close> a
  64-bit machine word. The zero value of each (\<open>common.Hash{}\<close>, \<open>common.Address{}\<close>)
  is the word \<open>0\<close>.
\<close>

type_synonym Hash = "256 word"
type_synonym Address = "160 word"
type_synonym uint64 = "64 word"
type_synonym byte = "8 word"

section \<open>The priority transaction (core/types/priority\_tx.go)\<close>

subsection \<open>Pointers and the heap\<close>

text \<open>
  Every \<open>*big.Int\<close> field of \<open>PriorityTx\<close> is a pointer, and \<open>Data\<close> and \<open>AccessList\<close>
  are slices over a backing array. Whether two transactions share storage is what the
  copy operation is about, so the model keeps an explicit heap: a reference is an
  address, \<open>None\<close> is the nil pointer (or nil slice), and the heap maps addresses to
  big integers, byte arrays, access-tuple arrays and storage-key arrays. A slice is
  modelled by the reference to its backing array (it spans the whole array).
  \<open>next_ref\<close> is the allocator: every address below it has been handed out.

  Modelled from the spec: the access list is that of ``the ordinary signed-transaction
  shape''; its element type \<open>types.AccessTuple\<close> is declared outside
  \<open>priority_tx.go\<close>. An element is an address together with a slice of storage keys, so
  an element copied by value still refers to the same array of storage keys.
\<close>

type_synonym ref = nat

record AccessTuple =
  Address :: Address
  StorageKeys :: "ref option"

record heap =
  ints :: "ref \<rightharpoonup> int"
  byte_arrays :: "ref \<rightharpoonup> byte list"
  tuple_arrays :: "ref \<rightharpoonup> AccessTuple list"
  hash_arrays :: "ref \<rightharpoonup> Hash list"
  next_ref :: ref

record PriorityTx =
  ChainID :: "ref option"
  Nonce :: uint64
  GasTipCap :: "ref option"
  GasFeeCap :: "ref option"
  Gas :: uint64
  To :: "Address option"
  Value :: "ref option"
  Data :: "ref option"
  AccessList :: "ref option"
  V :: "ref option"
  R :: "ref option"
  S :: "ref option"
  PriorityV :: "ref option"
  PriorityR :: "ref option"
  PriorityS :: "ref option"

subsection \<open>Accessors and signature setters\<close>

definition chainID :: "PriorityTx \<Rightarrow> ref option" where
  "chainID tx = ChainID tx"

definition rawSignatureValues :: "PriorityTx \<Rightarrow> ref option \<times> ref option \<times> ref option" where
  "rawSignatureValues tx = (V tx, R tx, S tx)"

definition rawPrioritySignatureValues ::
  "PriorityTx \<Rightarrow> ref option \<times> ref option \<times> ref option" where
  "rawPrioritySignatureValues tx = (PriorityV tx, PriorityR tx, PriorityS tx)"

text \<open>
  \<^verbatim>\<open>tx.ChainID, tx.V, tx.R, tx.S = chainID, v, r, s\<close>: the setters store the four
  pointers they are given.
\<close>

definition setSignatureValues ::
  "PriorityTx \<Rightarrow> ref option \<Rightarrow> ref option \<Rightarrow> ref option \<Rightarrow> ref option \<Rightarrow> PriorityTx" where
  "setSignatureValues tx chainID' v r s = tx\<lparr>ChainID := chainID', V := v, R := r, S := s\<rparr>"

definition setPrioritySignatureValues ::
  "PriorityTx \<Rightarrow> ref option \<Rightarrow> ref option \<Rightarrow> ref option \<Rightarrow> ref option \<Rightarrow> PriorityTx" where
  "setPrioritySignatureValues tx chainID' v r s =
     tx\<lparr>ChainID := chainID', PriorityV := v, PriorityR := r, PriorityS := s\<rparr>"

subsection \<open>Reading and writing through pointers\<close>

text \<open>
  \<open>big h p\<close> is the value read through the \<open>*big.Int\<close> \<open>p\<close> (nothing for the nil
  pointer), \<open>bytes_of\<close> and \<open>tuples_of\<close> the contents of a byte slice and of an access
  list (nothing for the nil slice). \<open>new_big\<close> is \<open>new(big.Int)\<close>, a fresh integer of
  value zero; \<open>big_Set z x\<close> is \<open>z.Set(x)\<close>; \<open>set_if_not_nil\<close> is the statement
  \<^verbatim>\<open>if tx.F != nil { cpy.F.Set(tx.F) }\<close>.
\<close>

definition big :: "heap \<Rightarrow> ref option \<Rightarrow> int option" where
  "big h p = (case p of None \<Rightarrow> None | Some r \<Rightarrow> ints h r)"

definition bytes_of :: "heap \<Rightarrow> ref option \<Rightarrow> byte list option" where
  "bytes_of h p = (case p of None \<Rightarrow> None | Some r \<Rightarrow> byte_arrays h r)"

definition tuples_of :: "heap \<Rightarrow> ref option \<Rightarrow> AccessTuple list option" where
  "tuples_of h p = (case p of None \<Rightarrow> None | Some r \<Rightarrow> tuple_arrays h r)"

definition new_big :: "heap \<Rightarrow> ref \<times> heap" where
  "new_big h =
     (next_ref h, h\<lparr>ints := (ints h)(next_ref h \<mapsto> 0), next_ref := Suc (next_ref h)\<rparr>)"

definition big_Set :: "ref \<Rightarrow> ref \<Rightarrow> heap \<Rightarrow> heap" where
  "big_Set z x h = h\<lparr>ints := (ints h)(z \<mapsto> (case ints h x of None \<Rightarrow> 0 | Some v \<Rightarrow> v))\<rparr>"

definition set_if_not_nil :: "ref \<Rightarrow> ref option \<Rightarrow> heap \<Rightarrow> heap" where
  "set_if_not_nil z p h = (case p of None \<Rightarrow> h | Some x \<Rightarrow> big_Set z x h)"

text \<open>
  Modelled from the spec: \<open>common.CopyBytes\<close> is not among the sources; the copy must
  have ``a new backing array for the payload bytes'', so it returns nil for nil and
  otherwise a fresh array with the same bytes. The other two are Go's own:
  \<open>make(AccessList, n)\<close> is a fresh array of \<open>n\<close> zero tuples, and the builtin
  \<open>copy(dst, src)\<close> overwrites the first \<open>min (len dst) (len src)\<close> elements of the
  destination with those of the source.
\<close>

definition CopyBytes :: "ref option \<Rightarrow> heap \<Rightarrow> ref option \<times> heap" where
  "CopyBytes b h =
     (case b of
        None \<Rightarrow> (None, h)
      | Some r \<Rightarrow>
          (Some (next_ref h),
           h\<lparr>byte_arrays := (byte_arrays h)(next_ref h \<mapsto>
                 (case byte_arrays h r of None \<Rightarrow> [] | Some bs \<Rightarrow> bs)),
             next_ref := Suc (next_ref h)\<rparr>))"

definition len_AccessList :: "heap \<Rightarrow> ref option \<Rightarrow> nat" where
  "len_AccessList h s = (case tuples_of h s of None \<Rightarrow> 0 | Some ts \<Rightarrow> length ts)"

definition make_AccessList :: "nat \<Rightarrow> heap \<Rightarrow> ref \<times> heap" where
  "make_AccessList n h =
     (next_ref h,
      h\<lparr>tuple_arrays := (tuple_arrays h)(next_ref h \<mapsto>
            replicate n \<lparr>Address = 0, StorageKeys = None\<rparr>),
        next_ref := Suc (next_ref h)\<rparr>)"

definition copy_AccessList :: "ref \<Rightarrow> ref option \<Rightarrow> heap \<Rightarrow> heap" where
  "copy_AccessList dst src h =
     (case tuple_arrays h dst of
        None \<Rightarrow> h
      | Some d \<Rightarrow>
          (let s = (case tuples_of h src of None \<Rightarrow> [] | Some ts \<Rightarrow> ts);
               n = min (length d) (length s)
           in h\<lparr>tuple_arrays := (tuple_arrays h)(dst \<mapsto> take n s @ drop n d)\<rparr>))"

subsection \<open>The copy\<close>

text \<open>
  \<open>PriorityTx.copy\<close>: the composite literal allocates in the order of its fields, then
  the access list is copied and each big integer is set from the source when the
  source's pointer is not nil. \<open>copyAddressPtr\<close> clones the address, which is a value
  in this model.
\<close>

definition copy :: "PriorityTx \<Rightarrow> heap \<Rightarrow> PriorityTx \<times> heap" where
  "copy tx h =
     (let (data, h) = CopyBytes (Data tx) h;
          (accessList, h) = make_AccessList (len_AccessList h (AccessList tx)) h;
          (val, h) = new_big h;
          (chainId, h) = new_big h;
          (gasTipCap, h) = new_big h;
          (gasFeeCap, h) = new_big h;
          (v, h) = new_big h;
          (r, h) = new_big h;
          (s, h) = new_big h;
          (priorityV, h) = new_big h;
          (priorityR, h) = new_big h;
          (priorityS, h) = new_big h;
          cpy = \<lparr>ChainID = Some chainId,
                 PriorityTx.Nonce = PriorityTx.Nonce tx,
                 GasTipCap = Some gasTipCap,
                 GasFeeCap = Some gasFeeCap,
                 Gas = Gas tx,
                 To = To tx,
                 Value = Some val,
                 Data = data,
                 AccessList = Some accessList,
                 V = Some v, R = Some r, S = Some s,
                 PriorityV = Some priorityV, PriorityR = Some priorityR,
                 PriorityS = Some priorityS\<rparr>;
          h = copy_AccessList accessList (AccessList tx) h;
          h = set_if_not_nil val (Value tx) h;
          h = set_if_not_nil chainId (ChainID tx) h;
          h = set_if_not_nil gasTipCap (GasTipCap tx) h;
          h = set_if_not_nil gasFeeCap (GasFeeCap tx) h;
          h = set_if_not_nil v (V tx) h;
          h = set_if_not_nil r (R tx) h;
          h = set_if_not_nil s (S tx) h;
          h = set_if_not_nil priorityV (PriorityV tx) h;
          h = set_if_not_nil priorityR (PriorityR tx) h;
          h = set_if_not_nil priorityS (PriorityS tx) h
      in (cpy, h))"

subsection \<open>What a transaction holds and what it points to\<close>

text \<open>
  The big-integer fields of a transaction, the references among them, and the values
  read through them. A transaction is valid in a heap when every pointer and slice it
  holds has been allocated there.
\<close>

definition big_fields :: "PriorityTx \<Rightarrow> ref option list" where
  "big_fields tx =
     [ChainID tx, GasTipCap tx, GasFeeCap tx, Value tx, V tx, R tx, S tx,
      PriorityV tx, PriorityR tx, PriorityS tx]"

definition big_refs :: "PriorityTx \<Rightarrow> ref set" where
  "big_refs tx = {r. Some r \<in> set (big_fields tx)}"

definition big_values :: "heap \<Rightarrow> PriorityTx \<Rightarrow> int option list" where
  "big_values h tx = map (big h) (big_fields tx)"

definition valid_tx :: "heap \<Rightarrow> PriorityTx \<Rightarrow> bool" where
  "valid_tx h tx =
     ((\<forall>p \<in> set (big_fields tx).
         case p of None \<Rightarrow> True | Some r \<Rightarrow> r < next_ref h \<and> ints h r \<noteq> None)
      \<and> (case Data tx of None \<Rightarrow> True | Some r \<Rightarrow> r < next_ref h \<and> byte_arrays h r \<noteq> None)
      \<and> (case AccessList tx of
            None \<Rightarrow> True
          | Some r \<Rightarrow> r < next_ref h \<and> tuple_arrays h r \<noteq> None))"

text \<open>
  What an access list reads as, storage keys included: for every element its address
  and the storage keys its slice holds (nothing for a nil slice).
\<close>

definition keys_of :: "heap \<Rightarrow> AccessTuple \<Rightarrow> Hash list option" where
  "keys_of h t = (case StorageKeys t of None \<Rightarrow> None | Some r \<Rightarrow> hash_arrays h r)"

definition access_view :: "heap \<Rightarrow> ref option \<Rightarrow> (Address \<times> Hash list option) list option" where
  "access_view h p = map_option (map (\<lambda>t. (Address t, keys_of h t))) (tuples_of h p)"

subsection \<open>A concrete transaction\<close>

text \<open>
  A heap with four big integers, one payload, one access list of two entries, the first
  of which has two storage keys, and a transaction that holds them and leaves its
  signature pointers nil.
\<close>

definition demo_heap :: heap where
  "demo_heap =
     \<lparr>ints = [0 \<mapsto> 5201421, 1 \<mapsto> 2, 2 \<mapsto> 30, 3 \<mapsto> 1000],
      byte_arrays = [4 \<mapsto> [0xca, 0xfe]],
      tuple_arrays = [5 \<mapsto> [\<lparr>Address = 7, StorageKeys = Some 6\<rparr>,
                           \<lparr>Address = 8, StorageKeys = None\<rparr>]],
      hash_arrays = [6 \<mapsto> [1, 2]],
      next_ref = 7\<rparr>"

definition demo_tx :: PriorityTx where
  "demo_tx =
     \<lparr>ChainID = Some 0, PriorityTx.Nonce = 9, GasTipCap = Some 1, GasFeeCap = Some 2,
      Gas = 21000, To = Some 0x7b56c6e6f53498e3e9332b180fe41f1add202f28, Value = Some 3,
      Data = Some 4, AccessList = Some 5, V = None, R = None, S = None,
      PriorityV = None, PriorityR = None, PriorityS = None\<rparr>"

text \<open>
  The first reference \<open>copy\<close> hands out after the payload: the payload takes one
  reference unless it is nil.
\<close>

definition copy_base :: "PriorityTx \<Rightarrow> heap \<Rightarrow> ref" where
  "copy_base tx h = (case Data tx of None \<Rightarrow> next_ref h | Some r \<Rightarrow> Suc (next_ref h))"

section \<open>Chain configuration and protocol parameters (package params)\<close>

text \<open>
  Package \<open>params\<close> is a collaborator of the genesis code. The genesis code reads and
  writes three fields of a chain configuration (\<open>ArrowGlacierBlock\<close>,
  \<open>TerminalTotalDifficulty\<close>, \<open>Clique\<close>); every other question about a configuration
  is asked through a method of \<open>params\<close>. The record keeps those three fields, the chain
  identifier (\<open>NetworkID\<close> here, the field \<open>ChainID\<close> of \<open>params.ChainConfig\<close>) and the
  London activation block; the methods and constants of \<open>params\<close> are the fields of
  \<open>protocol\<close>, over which every definition below is parametric.
\<close>

record CliqueConfig =
  Period :: uint64
  Epoch :: uint64

record ChainConfig =
  NetworkID :: int
  LondonBlock :: "int option"
  ArrowGlacierBlock :: "int option"
  TerminalTotalDifficulty :: "int option"
  Clique :: "CliqueConfig option"

text \<open>\<open>params.ConfigCompatError\<close>; the genesis code reads \<open>RewindTo\<close> only.\<close>

record ConfigCompatError =
  What :: string
  RewindTo :: uint64

datatype error =
    errGenesisNoConfig
  | errGenesisNumber
  | ForkOrderError string
  | errCliqueNoSigners
  | GenesisMismatchError Hash Hash
  | CompatError ConfigCompatError
  | errMissingHeadNumber

section \<open>Genesis specification, header and block (core/genesis.go)\<close>

record GenesisAccount =
  Code :: "byte list"
  Storage :: "(Hash \<times> Hash) list"
  Balance :: int
  Nonce :: uint64
  PrivateKey :: "byte list"

text \<open>
  \<open>GenesisAlloc\<close> is a Go map. A map has one entry per key and is ranged over in an
  order that changes from run to run, so a value of the type is the list of entries in
  the order one run visits them; the same holds for the \<open>Storage\<close> map of an account.
  \<open>Balance\<close> is a required field of the declarative format.
\<close>

type_synonym GenesisAlloc = "(Address \<times> GenesisAccount) list"

record Genesis =
  Config :: "ChainConfig option"
  Nonce :: uint64
  Timestamp :: uint64
  ExtraData :: "byte list"
  GasLimit :: uint64
  Difficulty :: "int option"
  Mixhash :: Hash
  Coinbase :: Address
  Alloc :: GenesisAlloc
  Number :: uint64
  GasUsed :: uint64
  ParentHash :: Hash
  BaseFee :: "int option"

text \<open>
  The header fields that \<open>ToBlock\<close> assigns; the remaining fields of \<open>types.Header\<close> are
  constants for a block without transactions, uncles or receipts.
\<close>

record Header =
  Number :: int
  Nonce :: uint64
  Time :: uint64
  ParentHash :: Hash
  Extra :: "byte list"
  GasLimit :: uint64
  GasUsed :: uint64
  BaseFee :: "int option"
  Difficulty :: "int option"
  MixDigest :: Hash
  Coinbase :: Address
  Root :: Hash

record Block =
  header :: Header

text \<open>The extra-data structure of the signer-list bootstrap (\<open>types.QBFTExtra\<close>).\<close>

record QBFTExtra =
  VanityData :: "byte list"
  Validators :: "Address list"
  Vote :: "(Address \<times> byte) option"
  Round :: "32 word"
  CommittedSeal :: "byte list list"

subsection \<open>The state database (package state)\<close>

text \<open>
  Modelled from the spec: the state store and its trie are collaborators (``a Merkle
  state trie with commit/root semantics''). A state is a finite map from addresses to
  accounts; the four setters used by \<open>flush\<close> create the account when it is missing,
  as \<open>flush\<close> relies on for a fresh state. A storage slot never written reads as zero.
\<close>

record stateObject =
  balance :: int
  nonce :: uint64
  code :: "byte list"
  storage :: "Hash \<Rightarrow> Hash"

type_synonym StateDB = "Address \<rightharpoonup> stateObject"

definition newObject :: stateObject where
  "newObject = \<lparr>balance = 0, nonce = 0, code = [], storage = (\<lambda>_. 0)\<rparr>"

definition getOrNewStateObject :: "StateDB \<Rightarrow> Address \<Rightarrow> stateObject" where
  "getOrNewStateObject s addr = (case s addr of None \<Rightarrow> newObject | Some obj \<Rightarrow> obj)"

definition AddBalance :: "Address \<Rightarrow> int \<Rightarrow> StateDB \<Rightarrow> StateDB" where
  "AddBalance addr amount s =
     (let obj = getOrNewStateObject s addr in s(addr \<mapsto> obj\<lparr>balance := balance obj + amount\<rparr>))"

definition SetCode :: "Address \<Rightarrow> byte list \<Rightarrow> StateDB \<Rightarrow> StateDB" where
  "SetCode addr c s = (let obj = getOrNewStateObject s addr in s(addr \<mapsto> obj\<lparr>code := c\<rparr>))"

definition SetNonce :: "Address \<Rightarrow> uint64 \<Rightarrow> StateDB \<Rightarrow> StateDB" where
  "SetNonce addr n s = (let obj = getOrNewStateObject s addr in s(addr \<mapsto> obj\<lparr>nonce := n\<rparr>))"

definition SetState :: "Address \<Rightarrow> Hash \<Rightarrow> Hash \<Rightarrow> StateDB \<Rightarrow> StateDB" where
  "SetState addr key val s =
     (let obj = getOrNewStateObject s addr in s(addr \<mapsto> obj\<lparr>storage := (storage obj)(key := val)\<rparr>))"

subsection \<open>Protocol parameters\<close>

record protocol =
  GenesisGasLimit :: uint64
  GenesisDifficulty :: int
  InitialBaseFee :: uint64
  SignatureLength :: nat
  MainnetGenesisHash :: Hash
  StagenetGenesisHash :: Hash
  TestnetGenesisHash :: Hash
  MainnetChainConfig :: ChainConfig
  StagenetChainConfig :: ChainConfig
  TestnetChainConfig :: ChainConfig
  AllEthashProtocolChanges :: ChainConfig
  IsLondon :: "ChainConfig \<Rightarrow> int \<Rightarrow> bool"
  CheckConfigForkOrder :: "ChainConfig \<Rightarrow> string option"
  CheckCompatible :: "ChainConfig \<Rightarrow> ChainConfig \<Rightarrow> uint64 \<Rightarrow> ConfigCompatError option"
  state_root :: "StateDB \<Rightarrow> Hash"
  block_hash :: "Header \<Rightarrow> Hash"
  rlp_encode_extra :: "QBFTExtra \<Rightarrow> byte list"

definition Block_Hash :: "protocol \<Rightarrow> Block \<Rightarrow> Hash" where
  "Block_Hash P b = block_hash P (header b)"

subsection \<open>The persistent store (packages ethdb and rawdb)\<close>

text \<open>
  Modelled from the spec: the key-value store is a collaborator of which the spec
  requires ``key-by-hash addressability and read-after-write visibility''. The store
  is the record of the tables the genesis code reads and writes: the allocation blob,
  total difficulty, block and receipts by hash (and number), the canonical hash by
  number, the three head pointers, the chain configuration by hash, the header number
  by hash (written with the header), and the committed states by state root.
\<close>

record store =
  genesis_state :: "Hash \<rightharpoonup> GenesisAlloc"
  total_difficulty :: "Hash \<times> uint64 \<rightharpoonup> int option"
  blocks :: "Hash \<times> uint64 \<rightharpoonup> Block"
  receipts :: "Hash \<times> uint64 \<rightharpoonup> unit list"
  canonical_hash :: "uint64 \<rightharpoonup> Hash"
  head_block_hash :: "Hash option"
  head_fast_block_hash :: "Hash option"
  head_header_hash :: "Hash option"
  chain_config :: "Hash \<rightharpoonup> ChainConfig"
  header_number :: "Hash \<rightharpoonup> uint64"
  state_nodes :: "Hash \<rightharpoonup> StateDB"

definition NewMemoryDatabase :: store where
  "NewMemoryDatabase =
     \<lparr>genesis_state = Map.empty, total_difficulty = Map.empty, blocks = Map.empty,
      receipts = Map.empty, canonical_hash = Map.empty, head_block_hash = None,
      head_fast_block_hash = None, head_header_hash = None, chain_config = Map.empty,
      header_number = Map.empty, state_nodes = Map.empty\<rparr>"

text \<open>
  Modelled from the spec: the accessors of \<open>rawdb\<close> used by the genesis code, each a
  read or a write of one table. A missing canonical hash or head pointer reads as the
  zero hash, a missing header, header number or chain configuration as nil. Writing a
  block writes its header, and with it the number of the header's hash.
\<close>

definition ReadCanonicalHash :: "store \<Rightarrow> uint64 \<Rightarrow> Hash" where
  "ReadCanonicalHash db n = (case canonical_hash db n of None \<Rightarrow> 0 | Some h \<Rightarrow> h)"

definition ReadHeader :: "store \<Rightarrow> Hash \<Rightarrow> uint64 \<Rightarrow> Header option" where
  "ReadHeader db h n = map_option header (blocks db (h, n))"

definition ReadHeadHeaderHash :: "store \<Rightarrow> Hash" where
  "ReadHeadHeaderHash db = (case head_header_hash db of None \<Rightarrow> 0 | Some h \<Rightarrow> h)"

definition ReadHeaderNumber :: "store \<Rightarrow> Hash \<Rightarrow> uint64 option" where
  "ReadHeaderNumber db h = header_number db h"

definition ReadChainConfig :: "store \<Rightarrow> Hash \<Rightarrow> ChainConfig option" where
  "ReadChainConfig db h = chain_config db h"

definition WriteGenesisState :: "store \<Rightarrow> Hash \<Rightarrow> GenesisAlloc \<Rightarrow> store" where
  "WriteGenesisState db h blob = db\<lparr>genesis_state := (genesis_state db)(h \<mapsto> blob)\<rparr>"

definition WriteTd :: "store \<Rightarrow> Hash \<Rightarrow> uint64 \<Rightarrow> int option \<Rightarrow> store" where
  "WriteTd db h n td = db\<lparr>total_difficulty := (total_difficulty db)((h, n) \<mapsto> td)\<rparr>"

definition WriteBlock :: "store \<Rightarrow> Hash \<Rightarrow> uint64 \<Rightarrow> Block \<Rightarrow> store" where
  "WriteBlock db h n b =
     db\<lparr>blocks := (blocks db)((h, n) \<mapsto> b), header_number := (header_number db)(h \<mapsto> n)\<rparr>"

definition WriteReceipts :: "store \<Rightarrow> Hash \<Rightarrow> uint64 \<Rightarrow> unit list \<Rightarrow> store" where
  "WriteReceipts db h n rs = db\<lparr>receipts := (receipts db)((h, n) \<mapsto> rs)\<rparr>"

definition WriteCanonicalHash :: "store \<Rightarrow> Hash \<Rightarrow> uint64 \<Rightarrow> store" where
  "WriteCanonicalHash db h n = db\<lparr>canonical_hash := (canonical_hash db)(n \<mapsto> h)\<rparr>"

definition WriteHeadBlockHash :: "store \<Rightarrow> Hash \<Rightarrow> store" where
  "WriteHeadBlockHash db h = db\<lparr>head_block_hash := Some h\<rparr>"

definition WriteHeadFastBlockHash :: "store \<Rightarrow> Hash \<Rightarrow> store" where
  "WriteHeadFastBlockHash db h = db\<lparr>head_fast_block_hash := Some h\<rparr>"

definition WriteHeadHeaderHash :: "store \<Rightarrow> Hash \<Rightarrow> store" where
  "WriteHeadHeaderHash db h = db\<lparr>head_header_hash := Some h\<rparr>"

definition WriteChainConfig :: "store \<Rightarrow> Hash \<Rightarrow> ChainConfig \<Rightarrow> store" where
  "WriteChainConfig db h cfg = db\<lparr>chain_config := (chain_config db)(h \<mapsto> cfg)\<rparr>"

text \<open>
  Modelled from the spec: \<open>state.New(root, db)\<close> opens the state with the given root
  and fails when the ``state root is not resolvable in the store''; committing a state
  stores it under its root, which makes the root resolvable.
\<close>

definition state_New :: "store \<Rightarrow> Hash \<Rightarrow> bool" where
  "state_New db root = (state_nodes db root \<noteq> None)"

definition commit_state :: "protocol \<Rightarrow> store \<Rightarrow> StateDB \<Rightarrow> Hash \<times> store" where
  "commit_state P db s =
     (let root = state_root P s in (root, db\<lparr>state_nodes := (state_nodes db)(root \<mapsto> s)\<rparr>))"

subsection \<open>Materialising the genesis block\<close>

text \<open>
  \<open>GenesisAlloc.flush\<close>: the loop body for one allocation entry, then the loop over
  the table on a fresh state, then the commit into the database handed in. Opening a
  fresh state and committing it do not fail in this model, so the error results of
  \<open>flush\<close> (and the panic of \<open>ToBlock\<close> on them) have no branch.
\<close>

definition flush_account :: "Address \<times> GenesisAccount \<Rightarrow> StateDB \<Rightarrow> StateDB" where
  "flush_account e s =
     (case e of (addr, account) \<Rightarrow>
        fold (\<lambda>(key, val). SetState addr key val) (Storage account)
          (SetNonce addr (GenesisAccount.Nonce account)
            (SetCode addr (Code account)
              (AddBalance addr (Balance account) s))))"

definition flush :: "protocol \<Rightarrow> GenesisAlloc \<Rightarrow> store \<Rightarrow> Hash \<times> store" where
  "flush P ga db = commit_state P db (fold flush_account ga Map.empty)"

text \<open>
  Modelled from the spec: \<open>types.NewBlock\<close> is declared outside \<open>genesis.go\<close>. It
  ``produces an empty-body block'' around a copy of the header handed in. The copy
  (\<open>types.CopyHeader\<close>) allocates the big integers anew: a nil difficulty becomes a
  fresh zero, the number is never nil here, and the base fee is copied when it is set
  and stays nil otherwise. With no transactions, uncles or receipts the remaining header
  fields are the constants of an empty body.
\<close>

definition CopyHeader :: "Header \<Rightarrow> Header" where
  "CopyHeader h =
     h\<lparr>Header.Difficulty := Some (case Header.Difficulty h of None \<Rightarrow> 0 | Some d \<Rightarrow> d)\<rparr>"

definition NewBlock :: "Header \<Rightarrow> Block" where
  "NewBlock head = \<lparr>header = CopyHeader head\<rparr>"

text \<open>
  \<open>Genesis.ToBlock(db)\<close>. A nil \<open>db\<close> is replaced by a fresh memory database, which
  is dropped on return; otherwise the flushed state stays in \<open>db\<close>.
\<close>

definition ToBlock :: "protocol \<Rightarrow> Genesis \<Rightarrow> store option \<Rightarrow> Block \<times> store option" where
  "ToBlock P g db =
     (let db0 = (case db of None \<Rightarrow> NewMemoryDatabase | Some d \<Rightarrow> d);
          (root, db1) = flush P (Alloc g) db0;
          head = \<lparr>Header.Number = uint (Genesis.Number g),
                  Header.Nonce = Genesis.Nonce g,
                  Time = Timestamp g,
                  Header.ParentHash = Genesis.ParentHash g,
                  Extra = ExtraData g,
                  Header.GasLimit = Genesis.GasLimit g,
                  Header.GasUsed = Genesis.GasUsed g,
                  Header.BaseFee = Genesis.BaseFee g,
                  Header.Difficulty = Genesis.Difficulty g,
                  MixDigest = Mixhash g,
                  Header.Coinbase = Genesis.Coinbase g,
                  Root = root\<rparr>;
          head = (if Genesis.GasLimit g = 0
                  then head\<lparr>Header.GasLimit := GenesisGasLimit P\<rparr> else head);
          head = (if Genesis.Difficulty g = None \<and> Mixhash g = 0
                  then head\<lparr>Header.Difficulty := Some (GenesisDifficulty P)\<rparr> else head);
          head = (if (case Config g of None \<Rightarrow> False | Some c \<Rightarrow> IsLondon P c 0)
                  then (case Genesis.BaseFee g of
                          Some b \<Rightarrow> head\<lparr>Header.BaseFee := Some b\<rparr>
                        | None \<Rightarrow> head\<lparr>Header.BaseFee := Some (uint (InitialBaseFee P))\<rparr>)
                  else head)
      in (NewBlock head, map_option (\<lambda>_. db1) db))"

subsection \<open>Committing the genesis block\<close>

text \<open>
  \<open>Genesis.Commit(db)\<close> returns the block or an error, and the database as it leaves
  it. The first step is \<open>ToBlock(db)\<close> on the database itself.
\<close>

definition Commit :: "protocol \<Rightarrow> Genesis \<Rightarrow> store \<Rightarrow> (error + Block) \<times> store" where
  "Commit P g db =
     (let (block, dbo) = ToBlock P g (Some db);
          db1 = (case dbo of None \<Rightarrow> db | Some d \<Rightarrow> d)
      in if Header.Number (header block) \<noteq> 0 then (Inl errGenesisNumber, db1)
         else
           let config = (case Config g of None \<Rightarrow> AllEthashProtocolChanges P | Some c \<Rightarrow> c)
           in case CheckConfigForkOrder P config of
                Some msg \<Rightarrow> (Inl (ForkOrderError msg), db1)
              | None \<Rightarrow>
                  if Clique config \<noteq> None
                     \<and> length (Extra (header block)) < 32 + SignatureLength P
                  then (Inl errCliqueNoSigners, db1)
                  else
                    let h = Block_Hash P block;
                        n = word_of_int (Header.Number (header block));
                        db2 = WriteGenesisState db1 h (Alloc g);
                        db3 = WriteTd db2 h n (Header.Difficulty (header block));
                        db4 = WriteBlock db3 h n block;
                        db5 = WriteReceipts db4 h n [];
                        db6 = WriteCanonicalHash db5 h n;
                        db7 = WriteHeadBlockHash db6 h;
                        db8 = WriteHeadFastBlockHash db7 h;
                        db9 = WriteHeadHeaderHash db8 h;
                        db10 = WriteChainConfig db9 h config
                    in (Inr block, db10))"

subsection \<open>The default genesis block\<close>

definition GenerateGenesisExtraDataForIBFTValSet :: "protocol \<Rightarrow> Address list \<Rightarrow> byte list" where
  "GenerateGenesisExtraDataForIBFTValSet P valset =
     rlp_encode_extra P
       \<lparr>VanityData = replicate 32 0, Validators = valset, Vote = None, Round = 0,
        CommittedSeal = []\<rparr>"

definition DefaultGenesisBlock :: "protocol \<Rightarrow> Genesis" where
  "DefaultGenesisBlock P =
     (let validatorSet =
        [0x135ec2bc4c04935ccd53967a072562120e4a3f92,
         0x57752beb85f0b8811023f048039591ef9eb78929,
         0xd8a2376cf7afa426414b960cfbfb4bb780e5181a,
         0x83ff6272d1de08ad8d492167412f1f329bd805f3,
         0x5584c91681cd7d850750941618dbaea2944e8ed4,
         0x763976728bc214a5c389d3928e03661bd6e7a649,
         0x915956a26fd7ee449d37ec93bbcfc5cad5ac8e27,
         0xd3e10f17e2e34e0a0fea05573992b21e13c224c9,
         0x7779ab2cb675d7a31714e86d01bd7a56a03f41d8]
      in \<lparr>Config = Some (MainnetChainConfig P),
          Genesis.Nonce = 0,
          Timestamp = 0,
          ExtraData = GenerateGenesisExtraDataForIBFTValSet P validatorSet,
          Genesis.GasLimit = 30000000,
          Genesis.Difficulty = Some 1,
          Mixhash = 0x63746963616c2062797a616e74696e65206661756c7420746f6c6572616e6365,
          Genesis.Coinbase = 0,
          Alloc = [(0x7b56c6e6f53498e3e9332b180fe41f1add202f28,
                    \<lparr>Code = [], Storage = [], Balance = 1000000000000000000000000000,
                     GenesisAccount.Nonce = 0, PrivateKey = []\<rparr>)],
          Genesis.Number = 0,
          Genesis.GasUsed = 0,
          Genesis.ParentHash = 0,
          Genesis.BaseFee = None\<rparr>)"

subsection \<open>Reconciling a stored genesis with a supplied one\<close>

definition configOrDefault :: "protocol \<Rightarrow> Genesis option \<Rightarrow> Hash \<Rightarrow> ChainConfig option" where
  "configOrDefault P g ghash =
     (case g of
        Some g' \<Rightarrow> Config g'
      | None \<Rightarrow>
          if ghash = MainnetGenesisHash P then Some (MainnetChainConfig P)
          else if ghash = StagenetGenesisHash P then Some (StagenetChainConfig P)
          else if ghash = TestnetGenesisHash P then Some (TestnetChainConfig P)
          else Some (AllEthashProtocolChanges P))"

text \<open>
  The two override assignments, which the source writes out twice: each field is
  overwritten when its override is not nil.
\<close>

definition apply_overrides :: "int option \<Rightarrow> int option \<Rightarrow> ChainConfig \<Rightarrow> ChainConfig" where
  "apply_overrides overrideArrowGlacier overrideTerminalTotalDifficulty cfg =
     (let cfg = (if overrideArrowGlacier \<noteq> None
                 then cfg\<lparr>ArrowGlacierBlock := overrideArrowGlacier\<rparr> else cfg);
          cfg = (if overrideTerminalTotalDifficulty \<noteq> None
                 then cfg\<lparr>TerminalTotalDifficulty := overrideTerminalTotalDifficulty\<rparr> else cfg)
      in cfg)"

text \<open>
  The result of \<open>SetupGenesisBlockWithOverride\<close>: the triple it returns, or a panic
  where the source dereferences a nil pointer (the header of the stored hash is read
  without a nil check, and the configuration is assigned to without one).
\<close>

datatype setup_result =
    Panic
  | Returned "ChainConfig option" Hash "error option"

text \<open>
  In the private-network branch \<open>newcfg = storedcfg\<close> makes both names point to the
  one configuration read from the store, so the override assignments that follow change
  \<open>storedcfg\<close> too: the compatibility check then compares that configuration with
  itself.
\<close>

definition SetupGenesisBlockWithOverride ::
  "protocol \<Rightarrow> store \<Rightarrow> Genesis option \<Rightarrow> int option \<Rightarrow> int option \<Rightarrow> setup_result \<times> store" where
  "SetupGenesisBlockWithOverride P db genesis overrideArrowGlacier overrideTerminalTotalDifficulty =
     (if (case genesis of None \<Rightarrow> False | Some g \<Rightarrow> Config g = None)
      then (Returned (Some (AllEthashProtocolChanges P)) 0 (Some errGenesisNoConfig), db)
      else
        let stored = ReadCanonicalHash db 0 in
        if stored = 0 then
          (let g = (case genesis of None \<Rightarrow> DefaultGenesisBlock P | Some g' \<Rightarrow> g') in
           (case Commit P g db of
              (Inl err, db') \<Rightarrow> (Returned (Config g) 0 (Some err), db')
            | (Inr block, db') \<Rightarrow> (Returned (Config g) (Block_Hash P block) None, db')))
        else
          (case ReadHeader db stored 0 of
             None \<Rightarrow> (Panic, db)
           | Some hdr \<Rightarrow>
              (if \<not> state_New db (Root hdr) then
                (let g = (case genesis of None \<Rightarrow> DefaultGenesisBlock P | Some g' \<Rightarrow> g');
                     hash = Block_Hash P (fst (ToBlock P g None))
                 in if hash \<noteq> stored
                    then (Returned (Config g) hash (Some (GenesisMismatchError stored hash)), db)
                    else
                      (case Commit P g db of
                         (Inl err, db') \<Rightarrow> (Returned (Config g) hash (Some err), db')
                       | (Inr block, db') \<Rightarrow>
                           (Returned (Config g) (Block_Hash P block) None, db')))
               else
                (case (case genesis of
                         None \<Rightarrow> None
                       | Some g \<Rightarrow>
                           (let hash = Block_Hash P (fst (ToBlock P g None))
                            in if hash \<noteq> stored
                               then Some (Returned (Config g) hash
                                            (Some (GenesisMismatchError stored hash)))
                               else None)) of
                   Some mismatch \<Rightarrow> (mismatch, db)
                 | None \<Rightarrow>
                    (case configOrDefault P genesis stored of
                       None \<Rightarrow> (Panic, db)
                     | Some defaulted \<Rightarrow>
                        (let newcfg = apply_overrides overrideArrowGlacier
                                        overrideTerminalTotalDifficulty defaulted
                         in (case CheckConfigForkOrder P newcfg of
                               Some msg \<Rightarrow>
                                 (Returned (Some newcfg) 0 (Some (ForkOrderError msg)), db)
                             | None \<Rightarrow>
                                (case ReadChainConfig db stored of
                                   None \<Rightarrow>
                                     (Returned (Some newcfg) stored None,
                                      WriteChainConfig db stored newcfg)
                                 | Some storedcfg0 \<Rightarrow>
                                    (let private =
                                           (genesis = None \<and> stored \<noteq> MainnetGenesisHash P);
                                         storedcfg =
                                           (if private
                                            then apply_overrides overrideArrowGlacier
                                                   overrideTerminalTotalDifficulty storedcfg0
                                            else storedcfg0);
                                         newcfg = (if private then storedcfg else newcfg)
                                     in (case ReadHeaderNumber db (ReadHeadHeaderHash db) of
                                           None \<Rightarrow>
                                             (Returned (Some newcfg) stored
                                                (Some errMissingHeadNumber), db)
                                         | Some height \<Rightarrow>
                                            (case CheckCompatible P storedcfg newcfg height of
                                               None \<Rightarrow>
                                                 (Returned (Some newcfg) stored None,
                                                  WriteChainConfig db stored newcfg)
                                             | Some compatErr \<Rightarrow>
                                                 (if height \<noteq> 0 \<and> RewindTo compatErr \<noteq> 0
                                                  then (Returned (Some newcfg) stored
                                                          (Some (CompatError compatErr)), db)
                                                  else (Returned (Some newcfg) stored None,
                                                        WriteChainConfig db stored newcfg)))))))))))))"

subsection \<open>The account that one allocation entry leaves in the state\<close>

text \<open>
  What \<open>flush_account\<close> makes of the account found at the entry's address: the balance
  is added to, code and nonce are set, and the storage slots are written one by one.
\<close>

definition account_object :: "GenesisAccount \<Rightarrow> stateObject \<Rightarrow> stateObject" where
  "account_object account obj =
     obj\<lparr>balance := balance obj + Balance account,
         code := Code account,
         nonce := GenesisAccount.Nonce account,
         storage := fold (\<lambda>(key, val) st. st(key := val)) (Storage account) (storage obj)\<rparr>"

subsection \<open>The content of an allocation table\<close>

text \<open>
  Two lists are two iteration orders of one allocation table when they hold the same
  entries up to order, at both levels: the same addresses with the same code, balance,
  nonce and key, and the same storage slots with the same values. \<open>entry_content\<close> is
  an entry with its storage taken as a multiset; \<open>one_value_per_slot\<close> says that every
  storage map has one value per slot, as a Go map has.
\<close>

definition entry_content ::
  "Address \<times> GenesisAccount \<Rightarrow>
     Address \<times> byte list \<times> (Hash \<times> Hash) multiset \<times> int \<times> uint64 \<times> byte list" where
  "entry_content e =
     (case e of (addr, account) \<Rightarrow>
        (addr, Code account, mset (Storage account), Balance account,
         GenesisAccount.Nonce account, PrivateKey account))"

definition one_value_per_slot :: "GenesisAlloc \<Rightarrow> bool" where
  "one_value_per_slot ga = list_all (\<lambda>(addr, account). distinct (map fst (Storage account))) ga"

subsection \<open>The checks of Commit, read off its body\<close>

text \<open>
  The configuration \<open>Commit\<close> resolves and the error, if any, that its three checks
  raise, in the order in which it makes them. The lemmas \<open>Commit_Inl\<close> and
  \<open>Commit_Inr\<close> below relate them to \<open>Commit\<close> itself.
\<close>

definition commit_config :: "protocol \<Rightarrow> Genesis \<Rightarrow> ChainConfig" where
  "commit_config P g = (case Config g of None \<Rightarrow> AllEthashProtocolChanges P | Some c \<Rightarrow> c)"

definition commit_error :: "protocol \<Rightarrow> Genesis \<Rightarrow> error option" where
  "commit_error P g =
     (if Genesis.Number g \<noteq> 0 then Some errGenesisNumber
      else case CheckConfigForkOrder P (commit_config P g) of
             Some msg \<Rightarrow> Some (ForkOrderError msg)
           | None \<Rightarrow>
               if Clique (commit_config P g) \<noteq> None
                  \<and> length (ExtraData g) < 32 + SignatureLength P
               then Some errCliqueNoSigners else None)"

subsection \<open>The states of the reconciler\<close>

text \<open>
  The third state of \<open>SetupGenesisBlockWithOverride\<close>, read off its guards: the
  supplied spec, if any, has a configuration; a canonical genesis hash is stored; its
  header is stored and the state under its root can be opened; and the supplied spec,
  if any, has the stored hash.
\<close>

definition stored_genesis_healthy :: "protocol \<Rightarrow> store \<Rightarrow> Genesis option \<Rightarrow> bool" where
  "stored_genesis_healthy P db genesis =
     ((case genesis of None \<Rightarrow> True | Some g \<Rightarrow> Config g \<noteq> None)
      \<and> ReadCanonicalHash db 0 \<noteq> 0
      \<and> (case ReadHeader db (ReadCanonicalHash db 0) 0 of
            None \<Rightarrow> False
          | Some hdr \<Rightarrow> state_New db (Root hdr))
      \<and> (case genesis of
            None \<Rightarrow> True
          | Some g \<Rightarrow> Block_Hash P (fst (ToBlock P g None)) = ReadCanonicalHash db 0))"

definition result_config :: "setup_result \<Rightarrow> ChainConfig option" where
  "result_config r = (case r of Panic \<Rightarrow> None | Returned cfg _ _ \<Rightarrow> cfg)"

section \<open>A concrete protocol instance\<close>

text \<open>
  The theorems below hold for every \<open>protocol\<close>. To run the definitions on concrete
  inputs, this instance fixes the constants and gives small stand-ins for the
  collaborators: a single-fork chain configuration (London), the fork-compatibility
  check of that fork (a fork already passed by the head on either side must be
  scheduled at the same block on both; the rewind target is one block below the earlier
  of the two), and two arithmetic stand-ins for the state root and the block hash.
  The instance's stagenet is the network of \<open>demo_genesis\<close>: its genesis hash is the
  hash of that spec, and its current default configuration schedules one fork more
  than the configuration \<open>demo_config\<close> that the spec carries.
\<close>

definition isForked :: "int option \<Rightarrow> uint64 \<Rightarrow> bool" where
  "isForked s head = (case s of None \<Rightarrow> False | Some b \<Rightarrow> b \<le> uint head)"

definition demo_CheckCompatible ::
  "ChainConfig \<Rightarrow> ChainConfig \<Rightarrow> uint64 \<Rightarrow> ConfigCompatError option" where
  "demo_CheckCompatible c newcfg head =
     (if (isForked (LondonBlock c) head \<or> isForked (LondonBlock newcfg) head)
         \<and> LondonBlock c \<noteq> LondonBlock newcfg
      then
        (let rew = (case (LondonBlock c, LondonBlock newcfg) of
                      (None, None) \<Rightarrow> 0
                    | (Some a, None) \<Rightarrow> a
                    | (None, Some b) \<Rightarrow> b
                    | (Some a, Some b) \<Rightarrow> min a b)
         in Some \<lparr>What = ''London fork block'',
                  RewindTo = (if 0 < rew then word_of_int (rew - 1) else 0)\<rparr>)
      else None)"

definition demo_config :: ChainConfig where
  "demo_config = \<lparr>NetworkID = 5201421, LondonBlock = Some 0, ArrowGlacierBlock = None,
                   TerminalTotalDifficulty = None, Clique = None\<rparr>"

definition demo_state_root :: "StateDB \<Rightarrow> Hash" where
  "demo_state_root s =
     (case s 1 of None \<Rightarrow> 1 | Some obj \<Rightarrow> 2 + 2 * word_of_int (balance obj))
     + (case s 2 of None \<Rightarrow> 0 | Some obj \<Rightarrow> 1000 + 1000 * word_of_int (balance obj))"

definition demo_block_hash :: "Header \<Rightarrow> Hash" where
  "demo_block_hash h = 16 + Root h + 1000000 * word_of_int (Header.Number h)"

definition demo_protocol :: protocol where
  "demo_protocol =
     \<lparr>GenesisGasLimit = 4712388, GenesisDifficulty = 131072, InitialBaseFee = 1000000000,
      SignatureLength = 65,
      MainnetGenesisHash = 17, StagenetGenesisHash = 8218, TestnetGenesisHash = 9,
      MainnetChainConfig = demo_config\<lparr>NetworkID := 52014\<rparr>,
      StagenetChainConfig = demo_config\<lparr>ArrowGlacierBlock := Some 100\<rparr>,
      TestnetChainConfig = demo_config\<lparr>NetworkID := 5201420\<rparr>,
      AllEthashProtocolChanges = demo_config\<lparr>NetworkID := 1337\<rparr>,
      IsLondon = (\<lambda>c num. case LondonBlock c of None \<Rightarrow> False | Some b \<Rightarrow> b \<le> num),
      CheckConfigForkOrder =
        (\<lambda>c. case (LondonBlock c, ArrowGlacierBlock c) of
               (None, Some _) \<Rightarrow> Some ''unsupported fork ordering''
             | (Some a, Some b) \<Rightarrow> if b < a then Some ''unsupported fork ordering'' else None
             | _ \<Rightarrow> None),
      CheckCompatible = demo_CheckCompatible,
      state_root = demo_state_root,
      block_hash = demo_block_hash,
      rlp_encode_extra = (\<lambda>e. VanityData e @ map ucast (Validators e))\<rparr>"

definition demo_alloc :: GenesisAlloc where
  "demo_alloc =
     [(1, \<lparr>Code = [], Storage = [], Balance = 100, GenesisAccount.Nonce = 0, PrivateKey = []\<rparr>),
      (2, \<lparr>Code = [96, 0], Storage = [(0, 5)], Balance = 7, GenesisAccount.Nonce = 1,
           PrivateKey = []\<rparr>)]"

definition demo_genesis :: Genesis where
  "demo_genesis =
     \<lparr>Config = Some demo_config, Genesis.Nonce = 0, Timestamp = 0, ExtraData = [],
      Genesis.GasLimit = 30000000, Genesis.Difficulty = Some 1, Mixhash = 0,
      Genesis.Coinbase = 0, Alloc = demo_alloc, Genesis.Number = 0, Genesis.GasUsed = 0,
      Genesis.ParentHash = 0, Genesis.BaseFee = None\<rparr>"

text \<open>
  An allocation table with a two-slot account, a second iteration order of it (entries
  and slots both reversed), and a stand-in for the state root that depends on the two
  slots.
\<close>

definition demo_storage_root :: "StateDB \<Rightarrow> Hash" where
  "demo_storage_root s =
     demo_state_root s
     + (case s 2 of None \<Rightarrow> 0 | Some obj \<Rightarrow> 3 * storage obj 0 + 5 * storage obj 1)"

definition demo_alloc_slots :: GenesisAlloc where
  "demo_alloc_slots =
     [(1, \<lparr>Code = [], Storage = [], Balance = 100, GenesisAccount.Nonce = 0, PrivateKey = []\<rparr>),
      (2, \<lparr>Code = [96, 0], Storage = [(0, 5), (1, 6)], Balance = 7, GenesisAccount.Nonce = 1,
           PrivateKey = []\<rparr>)]"

definition demo_alloc_slots_reordered :: GenesisAlloc where
  "demo_alloc_slots_reordered =
     [(2, \<lparr>Code = [96, 0], Storage = [(1, 6), (0, 5)], Balance = 7, GenesisAccount.Nonce = 1,
           PrivateKey = []\<rparr>),
      (1, \<lparr>Code = [], Storage = [], Balance = 100, GenesisAccount.Nonce = 0, PrivateKey = []\<rparr>)]"

subsection \<open>Concrete stores\<close>

text \<open>
  The store after \<open>demo_genesis\<close>, carrying a given configuration, has been committed
  to an empty database; the same store after the chain has grown to a head header of a
  given hash and number (the two tables the reconciler reads the head height from);
  and a second spec that differs from \<open>demo_genesis\<close> in one allocated balance.
\<close>

definition demo_store :: "ChainConfig \<Rightarrow> store" where
  "demo_store cfg = snd (Commit demo_protocol (demo_genesis\<lparr>Config := Some cfg\<rparr>) NewMemoryDatabase)"

definition advance_head :: "store \<Rightarrow> Hash \<Rightarrow> uint64 \<Rightarrow> store" where
  "advance_head db h n = WriteHeadHeaderHash (db\<lparr>header_number := (header_number db)(h \<mapsto> n)\<rparr>) h"

definition demo_genesis_B :: Genesis where
  "demo_genesis_B =
     demo_genesis\<lparr>Alloc :=
       [(1, \<lparr>Code = [], Storage = [], Balance = 200, GenesisAccount.Nonce = 0, PrivateKey = []\<rparr>),
        (2, \<lparr>Code = [96, 0], Storage = [(0, 5)], Balance = 7, GenesisAccount.Nonce = 1,
             PrivateKey = []\<rparr>)]\<rparr>"


section \<open>The priority transactor registry\<close>

text \<open>
  \<open>common.PriorityTransactor\<close> and the tuple type of the contract binding
  (\<open>ETNPriorityTransactorsInterfaceTransactorMeta\<close>: public key as a hex string,
  waiver flag, name). The type of public keys is left open.
\<close>

record PriorityTransactor =
  IsGasPriceWaiver :: bool
  EntityName :: string

record TransactorMeta =
  PublicKey :: string
  IsGasPriceWaiver :: bool
  Name :: string

text \<open>
  The state view: \<open>evm.StateDB.GetCode\<close> and \<open>evm.StaticCall(caller, addr, input, gas)\<close>,
  which returns the output and an error (the gas left over is ignored by the callers).
  The functions below also return the list of the static calls they issued.
\<close>

record EVM =
  GetCode :: "Address \<Rightarrow> byte list"
  StaticCall :: "Address \<Rightarrow> Address \<Rightarrow> byte list \<Rightarrow> uint64 \<Rightarrow> byte list \<times> string option"

record static_call =
  call_caller :: Address
  call_addr :: Address
  call_input :: "byte list"
  call_gas :: uint64

text \<open>
  The collaborators of the registry code: the per-height registry address of the chain
  configuration, the gas ceiling \<open>params.MaxGasLimit\<close>, the ABI packing and unpacking of
  the two contract methods (the errors of parsing the ABI and of packing are dropped by
  the source), and the conversions of public keys.
\<close>

record 'pk registry_abi =
  GetPriorityTransactorsContractAddress :: "ChainConfig \<Rightarrow> int \<Rightarrow> Address"
  MaxGasLimit :: uint64
  Pack_getTransactors :: "byte list"
  Pack_getTransactorByKey :: "string \<Rightarrow> byte list"
  Unpack_getTransactors :: "byte list \<Rightarrow> string + TransactorMeta list"
  Unpack_getTransactorByKey :: "byte list \<Rightarrow> string + TransactorMeta"
  HexToPublicKey :: "string \<Rightarrow> 'pk"
  ToUnprefixedHexString :: "'pk \<Rightarrow> string"

datatype registry_error =
    ContractCallError string
  | DecodeError string

type_synonym 'pk PriorityTransactorMap = "'pk \<rightharpoonup> PriorityTransactor"

definition transactor_entry :: "TransactorMeta \<Rightarrow> PriorityTransactor" where
  "transactor_entry t =
     \<lparr>PriorityTransactor.IsGasPriceWaiver = TransactorMeta.IsGasPriceWaiver t,
      EntityName = Name t\<rparr>"

definition GetPriorityTransactors ::
  "'pk registry_abi \<Rightarrow> int \<Rightarrow> ChainConfig \<Rightarrow> EVM \<Rightarrow>
     ('pk PriorityTransactorMap \<times> registry_error option) \<times> static_call list" where
  "GetPriorityTransactors E blockNumber config evm =
     (let address = GetPriorityTransactorsContractAddress E config blockNumber;
          contract = address;
          result = Map.empty
      in if address \<noteq> 0 then
           (let byteCode = GetCode evm address in
            if length byteCode = 0 then ((result, None), [])
            else
              (let input = Pack_getTransactors E;
                   issued = [\<lparr>call_caller = contract, call_addr = address, call_input = input,
                              call_gas = MaxGasLimit E\<rparr>];
                   (output, err) = StaticCall evm contract address input (MaxGasLimit E)
               in (case err of
                     Some e \<Rightarrow> ((result, Some (ContractCallError e)), issued)
                   | None \<Rightarrow>
                      (case Unpack_getTransactors E output of
                         Inl e \<Rightarrow> ((result, Some (DecodeError e)), issued)
                       | Inr transactorsMeta \<Rightarrow>
                           ((fold (\<lambda>t m. m(HexToPublicKey E (PublicKey t) \<mapsto> transactor_entry t))
                               transactorsMeta result, None), issued)))))
         else ((result, None), []))"

definition getPriorityTransactorByKey ::
  "'pk registry_abi \<Rightarrow> int \<Rightarrow> 'pk \<Rightarrow> ChainConfig \<Rightarrow> EVM \<Rightarrow>
     (PriorityTransactor \<times> bool) \<times> static_call list" where
  "getPriorityTransactorByKey E blockNumber publicKey config evm =
     (let address = GetPriorityTransactorsContractAddress E config blockNumber;
          contract = address;
          notFound = (\<lparr>PriorityTransactor.IsGasPriceWaiver = False, EntityName = []\<rparr>, False)
      in if address \<noteq> 0 then
           (let input = Pack_getTransactorByKey E (ToUnprefixedHexString E publicKey);
                issued = [\<lparr>call_caller = contract, call_addr = address, call_input = input,
                           call_gas = MaxGasLimit E\<rparr>];
                (output, err) = StaticCall evm contract address input (MaxGasLimit E)
            in (case err of
                  Some e \<Rightarrow> (notFound, issued)
                | None \<Rightarrow>
                   (case Unpack_getTransactorByKey E output of
                      Inl e \<Rightarrow> (notFound, issued)
                    | Inr transactorMeta \<Rightarrow>
                        ((\<lparr>PriorityTransactor.IsGasPriceWaiver =
                             TransactorMeta.IsGasPriceWaiver transactorMeta,
                           EntityName = Name transactorMeta\<rparr>, True), issued))))
         else (notFound, []))"

subsection \<open>A concrete registry\<close>

text \<open>
  A registry at address \<open>0x1000\<close> from block 100 on, and none before. Public keys are
  their hex strings. The ABI stand-in decodes the one-byte output \<open>[2]\<close> of the list
  method to two tuples with different keys, \<open>[3]\<close> to two tuples with the same key, the
  one-byte output \<open>[1]\<close> of the single-key method to one tuple, and rejects every other
  output, the empty one included. \<open>demo_evm\<close> has the contract deployed;
  \<open>demo_evm_no_code\<close> has no code at any address, and a static call to an address
  without code succeeds with empty output.
\<close>

definition demo_registry :: "string registry_abi" where
  "demo_registry =
     \<lparr>GetPriorityTransactorsContractAddress = (\<lambda>config num. if 100 \<le> num then 0x1000 else 0),
      MaxGasLimit = 0x7fffffffffffffff,
      Pack_getTransactors = [1],
      Pack_getTransactorByKey = (\<lambda>key. 2 # map (of_nat \<circ> of_char) key),
      Unpack_getTransactors =
        (\<lambda>output.
           if output = [2] then
             Inr [\<lparr>PublicKey = ''04aa'', TransactorMeta.IsGasPriceWaiver = True, Name = ''Alice''\<rparr>,
                  \<lparr>PublicKey = ''04bb'', TransactorMeta.IsGasPriceWaiver = False, Name = ''Bob''\<rparr>]
           else if output = [3] then
             Inr [\<lparr>PublicKey = ''04aa'', TransactorMeta.IsGasPriceWaiver = True, Name = ''Alice''\<rparr>,
                  \<lparr>PublicKey = ''04aa'', TransactorMeta.IsGasPriceWaiver = False, Name = ''Bob''\<rparr>]
           else Inl ''abi: cannot unmarshal''),
      Unpack_getTransactorByKey =
        (\<lambda>output.
           if output = [1] then
             Inr \<lparr>PublicKey = ''04aa'', TransactorMeta.IsGasPriceWaiver = True, Name = ''Alice''\<rparr>
           else Inl ''abi: cannot unmarshal''),
      HexToPublicKey = (\<lambda>s. s),
      ToUnprefixedHexString = (\<lambda>k. k)\<rparr>"

definition demo_evm :: "byte list \<Rightarrow> EVM" where
  "demo_evm listing =
     \<lparr>GetCode = (\<lambda>a. if a = 0x1000 then [96, 128] else []),
      StaticCall = (\<lambda>caller' a input g.
        if a = 0x1000 then (if input = [1] then (listing, None) else ([1], None))
        else ([], None))\<rparr>"

definition demo_evm_no_code :: EVM where
  "demo_evm_no_code = \<lparr>GetCode = (\<lambda>a. []), StaticCall = (\<lambda>caller' a input g. ([], None))\<rparr>"

section \<open>Properties of the priority transaction\<close>

text \<open>
  C10. \<open>setPrioritySignatureValues(chainID, v, r, s)\<close> overwrites the priority signature
  triple and also the transaction's \<open>ChainID\<close>, and leaves the ordinary triple
  \<open>(V, R, S)\<close> and every other field as it was; afterwards
  \<open>rawPrioritySignatureValues\<close> returns exactly \<open>(v, r, s)\<close> and \<open>chainID()\<close> returns
  \<open>chainID\<close>. Symmetrically \<open>setSignatureValues\<close> overwrites \<open>ChainID\<close> and \<open>(V, R, S)\<close>
  and leaves the priority triple and every other field as it was.
\<close>

theorem set_signature_values_frame:
  "setPrioritySignatureValues tx c v r s =
     tx\<lparr>ChainID := c, PriorityV := v, PriorityR := r, PriorityS := s\<rparr>
   \<and> rawPrioritySignatureValues (setPrioritySignatureValues tx c v r s) = (v, r, s)
   \<and> chainID (setPrioritySignatureValues tx c v r s) = c
   \<and> rawSignatureValues (setPrioritySignatureValues tx c v r s) = rawSignatureValues tx
   \<and> PriorityTx.Nonce (setPrioritySignatureValues tx c v r s) = PriorityTx.Nonce tx
   \<and> GasTipCap (setPrioritySignatureValues tx c v r s) = GasTipCap tx
   \<and> GasFeeCap (setPrioritySignatureValues tx c v r s) = GasFeeCap tx
   \<and> Gas (setPrioritySignatureValues tx c v r s) = Gas tx
   \<and> To (setPrioritySignatureValues tx c v r s) = To tx
   \<and> Value (setPrioritySignatureValues tx c v r s) = Value tx
   \<and> Data (setPrioritySignatureValues tx c v r s) = Data tx
   \<and> AccessList (setPrioritySignatureValues tx c v r s) = AccessList tx
   \<and> setSignatureValues tx c v r s = tx\<lparr>ChainID := c, V := v, R := r, S := s\<rparr>
   \<and> rawSignatureValues (setSignatureValues tx c v r s) = (v, r, s)
   \<and> chainID (setSignatureValues tx c v r s) = c
   \<and> rawPrioritySignatureValues (setSignatureValues tx c v r s) = rawPrioritySignatureValues tx
   \<and> PriorityTx.Nonce (setSignatureValues tx c v r s) = PriorityTx.Nonce tx
   \<and> GasTipCap (setSignatureValues tx c v r s) = GasTipCap tx
   \<and> GasFeeCap (setSignatureValues tx c v r s) = GasFeeCap tx
   \<and> Gas (setSignatureValues tx c v r s) = Gas tx
   \<and> To (setSignatureValues tx c v r s) = To tx
   \<and> Value (setSignatureValues tx c v r s) = Value tx
   \<and> Data (setSignatureValues tx c v r s) = Data tx
   \<and> AccessList (setSignatureValues tx c v r s) = AccessList tx"
  by (simp add: setPrioritySignatureValues_def setSignatureValues_def chainID_def
      rawSignatureValues_def rawPrioritySignatureValues_def)

section \<open>Properties of the genesis block builder\<close>

subsection \<open>The flushed state\<close>

lemma fold_SetState:
  "fold (\<lambda>(key, val). SetState addr key val) kvs s =
     (if kvs = [] then s
      else s(addr \<mapsto> (getOrNewStateObject s addr)
             \<lparr>storage := fold (\<lambda>(key, val) st. st(key := val)) kvs
                           (storage (getOrNewStateObject s addr))\<rparr>))"
proof (induction kvs arbitrary: s)
  case Nil
  show ?case by simp
next
  case (Cons kv kvs)
  obtain k v where kv: "kv = (k, v)" by (cases kv)
  have "fold (\<lambda>(key, val). SetState addr key val) (kv # kvs) s =
          fold (\<lambda>(key, val). SetState addr key val) kvs (SetState addr k v s)"
    by (simp add: kv)
  also note Cons.IH [of "SetState addr k v s"]
  finally have step:
    "fold (\<lambda>(key, val). SetState addr key val) (kv # kvs) s =
       (if kvs = [] then SetState addr k v s
        else (SetState addr k v s)(addr \<mapsto> (getOrNewStateObject (SetState addr k v s) addr)
               \<lparr>storage := fold (\<lambda>(key, val) st. st(key := val)) kvs
                    (storage (getOrNewStateObject (SetState addr k v s) addr))\<rparr>))" .
  show ?case
    by (subst step) (simp add: kv SetState_def getOrNewStateObject_def Let_def)
qed

lemma flush_account_eq:
  "flush_account (addr, account) s =
     s(addr \<mapsto> account_object account (getOrNewStateObject s addr))"
  by (simp add: flush_account_def fold_SetState AddBalance_def SetCode_def SetNonce_def
      getOrNewStateObject_def account_object_def Let_def)

text \<open>Entries for different addresses can be applied in either order.\<close>

lemma flush_account_commute:
  assumes "fst e1 \<noteq> fst e2"
  shows "flush_account e1 (flush_account e2 s) = flush_account e2 (flush_account e1 s)"
proof -
  obtain a1 acc1 where e1: "e1 = (a1, acc1)" by (cases e1)
  obtain a2 acc2 where e2: "e2 = (a2, acc2)" by (cases e2)
  from assms have ne: "a1 \<noteq> a2" by (simp add: e1 e2)
  show ?thesis
    using ne by (simp add: e1 e2 flush_account_eq getOrNewStateObject_def fun_upd_twist)
qed

lemma fold_flush_account_perm:
  assumes "distinct (map fst xs)" and "mset ys = mset xs"
  shows "fold flush_account ys s = fold flush_account xs s"
proof -
  have comm: "flush_account x \<circ> flush_account y = flush_account y \<circ> flush_account x"
    if "x \<in> set xs" "y \<in> set xs" for x y
  proof (cases "x = y")
    case True
    then show ?thesis by simp
  next
    case False
    with that assms(1) have "fst x \<noteq> fst y"
      by (metis distinct_map inj_on_def)
    then show ?thesis
      by (auto simp: fun_eq_iff flush_account_commute)
  qed
  have "fold flush_account xs = fold flush_account ys"
    by (rule fold_multiset_equiv) (use comm assms(2) in auto)
  then show ?thesis by simp
qed

text \<open>
  The same holds one level down: the storage map of an account (one value per slot) can
  be ranged over in any order.
\<close>

lemma flush_account_storage_perm:
  assumes "distinct (map fst (Storage account))" and "mset slots = mset (Storage account)"
  shows "flush_account (addr, account\<lparr>Storage := slots\<rparr>) s = flush_account (addr, account) s"
proof -
  let ?w = "\<lambda>(key, val) st. (st :: Hash \<Rightarrow> Hash)(key := val)"
  have comm: "?w x \<circ> ?w y = ?w y \<circ> ?w x"
    if "x \<in> set (Storage account)" "y \<in> set (Storage account)" for x y
  proof (cases "x = y")
    case True
    then show ?thesis by simp
  next
    case False
    with that assms(1) have "fst x \<noteq> fst y"
      by (metis distinct_map inj_on_def)
    then show ?thesis
      by (cases x; cases y) (auto simp: fun_eq_iff)
  qed
  have "fold ?w (Storage account) = fold ?w slots"
    by (rule fold_multiset_equiv) (use comm assms(2) in auto)
  then show ?thesis
    by (simp add: flush_account_eq account_object_def)
qed

lemma flush_root: "fst (flush P ga db) = state_root P (fold flush_account ga Map.empty)"
  by (simp add: flush_def commit_state_def Let_def)

subsection \<open>The header of the materialised block\<close>

lemma ToBlock_header:
  "header (fst (ToBlock P g db)) =
     \<lparr>Header.Number = uint (Genesis.Number g),
      Header.Nonce = Genesis.Nonce g,
      Time = Timestamp g,
      Header.ParentHash = Genesis.ParentHash g,
      Extra = ExtraData g,
      Header.GasLimit = (if Genesis.GasLimit g = 0 then GenesisGasLimit P else Genesis.GasLimit g),
      Header.GasUsed = Genesis.GasUsed g,
      Header.BaseFee =
        (if (case Config g of None \<Rightarrow> False | Some c \<Rightarrow> IsLondon P c 0)
         then (case Genesis.BaseFee g of Some b \<Rightarrow> Some b | None \<Rightarrow> Some (uint (InitialBaseFee P)))
         else Genesis.BaseFee g),
      Header.Difficulty =
        (if Genesis.Difficulty g = None \<and> Mixhash g = 0 then Some (GenesisDifficulty P)
         else Some (case Genesis.Difficulty g of None \<Rightarrow> 0 | Some d \<Rightarrow> d)),
      MixDigest = Mixhash g,
      Header.Coinbase = Genesis.Coinbase g,
      Root = state_root P (fold flush_account (Alloc g) Map.empty)\<rparr>"
  by (simp add: ToBlock_def NewBlock_def CopyHeader_def Let_def split_def flush_root
      split: option.splits)

text \<open>A nil difficulty with a nonzero mix hash is zero in the block's header.\<close>

lemma ToBlock_nil_difficulty:
  "Genesis.Difficulty g = None \<Longrightarrow> Mixhash g \<noteq> 0 \<Longrightarrow>
   Header.Difficulty (header (fst (ToBlock P g db))) = Some 0"
  by (simp add: ToBlock_header)

text \<open>
  C8. \<open>ToBlock\<close> applies the defaulting rules to the header it produces: a gas limit
  of 0 in the spec becomes the protocol's default gas limit, any other gas limit is
  kept; a nil difficulty together with a zero mix hash becomes the protocol's default
  difficulty, and otherwise the header's difficulty is the spec's, a nil one (with a
  nonzero mix hash) being the zero of the block's header copy; when the spec's
  configuration enables London at block zero the base fee is the spec's base fee if it
  has one and the protocol's initial base fee otherwise; in every other case the
  header's base fee is the spec's base fee, nil or not. Every other header field is the
  spec's field, and the root is the root of the flushed allocation. The spec is an
  argument of a function and is not changed.
\<close>

theorem ToBlock_defaulting_rules:
  "Header.GasLimit (header (fst (ToBlock P g db))) =
     (if Genesis.GasLimit g = 0 then GenesisGasLimit P else Genesis.GasLimit g)
   \<and> Header.Difficulty (header (fst (ToBlock P g db))) =
     (if Genesis.Difficulty g = None \<and> Mixhash g = 0 then Some (GenesisDifficulty P)
      else Some (case Genesis.Difficulty g of None \<Rightarrow> 0 | Some d \<Rightarrow> d))
   \<and> Header.BaseFee (header (fst (ToBlock P g db))) =
     (if (case Config g of None \<Rightarrow> False | Some c \<Rightarrow> IsLondon P c 0)
      then (case Genesis.BaseFee g of
              Some b \<Rightarrow> Some b
            | None \<Rightarrow> Some (uint (InitialBaseFee P)))
      else Genesis.BaseFee g)
   \<and> Header.Number (header (fst (ToBlock P g db))) = uint (Genesis.Number g)
   \<and> Header.Nonce (header (fst (ToBlock P g db))) = Genesis.Nonce g
   \<and> Time (header (fst (ToBlock P g db))) = Timestamp g
   \<and> Header.ParentHash (header (fst (ToBlock P g db))) = Genesis.ParentHash g
   \<and> Extra (header (fst (ToBlock P g db))) = ExtraData g
   \<and> Header.GasUsed (header (fst (ToBlock P g db))) = Genesis.GasUsed g
   \<and> MixDigest (header (fst (ToBlock P g db))) = Mixhash g
   \<and> Header.Coinbase (header (fst (ToBlock P g db))) = Genesis.Coinbase g
   \<and> Root (header (fst (ToBlock P g db))) = fst (flush P (Alloc g) NewMemoryDatabase)"
  by (simp add: ToBlock_header flush_root)

subsection \<open>Determinism and order independence\<close>

lemma perm_of_mapped:
  "mset (map f xs) = mset (map f ys) \<Longrightarrow> \<exists>zs. mset zs = mset xs \<and> map f zs = map f ys"
proof (induction ys arbitrary: xs)
  case Nil
  then show ?case by simp
next
  case (Cons y ys)
  from Cons.prems have "f y \<in># mset (map f xs)" by simp
  then have "f y \<in> f ` set xs" by simp
  then obtain x where x: "x \<in> set xs" "f x = f y" by auto
  then obtain pre post where xs: "xs = pre @ x # post"
    by (auto simp: in_set_conv_decomp)
  from Cons.prems have "mset (map f (pre @ post)) = mset (map f ys)"
    by (simp add: xs x(2))
  from Cons.IH [OF this] obtain zs where zs: "mset zs = mset (pre @ post)" "map f zs = map f ys"
    by blast
  have "mset (x # zs) = mset xs \<and> map f (x # zs) = map f (y # ys)"
    by (simp add: zs xs x(2))
  then show ?case by blast
qed

lemma flush_account_same_content:
  assumes "entry_content e' = entry_content e" and "distinct (map fst (Storage (snd e)))"
  shows "flush_account e' = flush_account e"
proof -
  obtain a acc where e: "e = (a, acc)" by (cases e)
  obtain a' acc' where e': "e' = (a', acc')" by (cases e')
  from assms(1) have eq: "a' = a" "Code acc' = Code acc" "mset (Storage acc') = mset (Storage acc)"
    "Balance acc' = Balance acc" "GenesisAccount.Nonce acc' = GenesisAccount.Nonce acc"
    "PrivateKey acc' = PrivateKey acc"
    by (simp_all add: entry_content_def e e')
  have "acc' = acc\<lparr>Storage := Storage acc'\<rparr>"
    using eq by simp
  then have "flush_account (a, acc') s = flush_account (a, acc) s" for s
    using flush_account_storage_perm [of acc "Storage acc'" a s] assms(2) eq(3)
    by (simp add: e)
  then show ?thesis by (simp add: e e' eq(1) fun_eq_iff)
qed

lemma fold_flush_account_same_content:
  assumes "map entry_content zs = map entry_content xs" and "one_value_per_slot xs"
  shows "fold flush_account zs s = fold flush_account xs s"
  using assms
proof (induction xs arbitrary: zs s)
  case Nil
  then show ?case by simp
next
  case (Cons x xs)
  from Cons.prems(1) obtain z zs' where zs: "zs = z # zs'"
    and z: "entry_content z = entry_content x"
    and rest: "map entry_content zs' = map entry_content xs"
    by (cases zs) auto
  from Cons.prems(2) have d: "distinct (map fst (Storage (snd x)))" and o: "one_value_per_slot xs"
    by (auto simp: one_value_per_slot_def split_def)
  show ?case
    by (simp add: zs flush_account_same_content [OF z d] Cons.IH [OF rest o])
qed

lemma fst_entry_content: "fst (entry_content e) = fst e"
  by (cases e) (simp add: entry_content_def)

lemma fold_flush_account_content:
  assumes d: "distinct (map fst xs)" and o: "one_value_per_slot xs"
    and c: "mset (map entry_content ys) = mset (map entry_content xs)"
  shows "fold flush_account ys s = fold flush_account xs s"
proof -
  from perm_of_mapped [OF c] obtain zs where
    zs: "mset zs = mset ys" "map entry_content zs = map entry_content xs" by blast
  have "map fst (map entry_content zs) = map fst (map entry_content xs)"
    by (simp only: zs(2))
  then have "map fst zs = map fst xs"
    by (simp add: fst_entry_content comp_def)
  then have dz: "distinct (map fst zs)" using d by simp
  have "fold flush_account ys s = fold flush_account zs s"
    using fold_flush_account_perm [OF dz, of ys s] zs(1) by simp
  also have "\<dots> = fold flush_account xs s"
    by (rule fold_flush_account_same_content [OF zs(2) o])
  finally show ?thesis .
qed

lemma ToBlock_block_content:
  assumes "distinct (map fst (Alloc g))" and "one_value_per_slot (Alloc g)"
    and "mset (map entry_content alloc') = mset (map entry_content (Alloc g))"
  shows "fst (ToBlock P (g\<lparr>Alloc := alloc'\<rparr>) db') = fst (ToBlock P g db)"
proof -
  have "header (fst (ToBlock P (g\<lparr>Alloc := alloc'\<rparr>) db')) = header (fst (ToBlock P g db))"
    by (simp add: ToBlock_header fold_flush_account_content [OF assms])
  then show ?thesis by simp
qed

text \<open>
  C2. Materialising a genesis spec is deterministic and independent of the order in
  which its maps are ranged over: for an allocation table (one entry per address, one
  value per storage slot) and any second iteration order of it, with the entries in
  another order, for instance reversed, and the storage slots of every account in
  another order, and whatever databases the two runs write to, \<open>flush\<close> yields the same
  state root and \<open>ToBlock\<close> the same block, hence the same root in the header and the
  same block hash. The block and its hash are functions of the content of the spec.
\<close>

theorem materialize_order_independent:
  assumes "distinct (map fst (Alloc g))" and "one_value_per_slot (Alloc g)"
    and "mset (map entry_content alloc') = mset (map entry_content (Alloc g))"
  shows "fst (flush P alloc' d') = fst (flush P (Alloc g) d)
       \<and> fst (ToBlock P (g\<lparr>Alloc := alloc'\<rparr>) db') = fst (ToBlock P g db)
       \<and> Root (header (fst (ToBlock P (g\<lparr>Alloc := alloc'\<rparr>) db'))) =
           Root (header (fst (ToBlock P g db)))
       \<and> Block_Hash P (fst (ToBlock P (g\<lparr>Alloc := alloc'\<rparr>) db')) =
           Block_Hash P (fst (ToBlock P g db))"
  by (simp add: ToBlock_block_content [OF assms, of P db' db] flush_root
      fold_flush_account_content [OF assms])

text \<open>
  A table with a two-slot account against the same table with entries and slots
  reversed, under a state root that depends on the slots.
\<close>

theorem materialize_order_independent_witness:
  "distinct (map fst demo_alloc_slots)
   \<and> one_value_per_slot demo_alloc_slots
   \<and> mset (map entry_content demo_alloc_slots_reordered) =
       mset (map entry_content demo_alloc_slots)
   \<and> demo_alloc_slots_reordered \<noteq> demo_alloc_slots
   \<and> fst (ToBlock (demo_protocol\<lparr>state_root := demo_storage_root\<rparr>)
            (demo_genesis\<lparr>Alloc := demo_alloc_slots_reordered\<rparr>) None) =
       fst (ToBlock (demo_protocol\<lparr>state_root := demo_storage_root\<rparr>)
            (demo_genesis\<lparr>Alloc := demo_alloc_slots\<rparr>) None)
   \<and> Root (header (fst (ToBlock (demo_protocol\<lparr>state_root := demo_storage_root\<rparr>)
            (demo_genesis\<lparr>Alloc := demo_alloc_slots\<rparr>) None))) = 8247"
proof -
  let ?g = "demo_genesis\<lparr>Alloc := demo_alloc_slots\<rparr>"
  have d: "distinct (map fst (Alloc ?g))"
    by (simp add: demo_alloc_slots_def)
  have o: "one_value_per_slot (Alloc ?g)"
    by (simp add: demo_alloc_slots_def one_value_per_slot_def)
  have m: "mset (map entry_content demo_alloc_slots_reordered) = mset (map entry_content (Alloc ?g))"
    by (simp add: demo_alloc_slots_def demo_alloc_slots_reordered_def entry_content_def)
  have n: "demo_alloc_slots_reordered \<noteq> demo_alloc_slots"
    by (simp add: demo_alloc_slots_def demo_alloc_slots_reordered_def)
  have r: "Root (header (fst (ToBlock (demo_protocol\<lparr>state_root := demo_storage_root\<rparr>) ?g None))) = 8247"
    by (simp add: ToBlock_header demo_alloc_slots_def demo_protocol_def demo_storage_root_def
        demo_state_root_def flush_account_eq account_object_def getOrNewStateObject_def
        newObject_def)
  show ?thesis
    using d o m n r
      materialize_order_independent
        [OF d o m, of "demo_protocol\<lparr>state_root := demo_storage_root\<rparr>"
           NewMemoryDatabase NewMemoryDatabase None None]
    by simp
qed

section \<open>Properties of the genesis commit\<close>

lemma flush_store:
  "snd (flush P ga db) =
     db\<lparr>state_nodes := (state_nodes db)(fst (flush P ga db) \<mapsto> fold flush_account ga Map.empty)\<rparr>"
  by (simp add: flush_def commit_state_def Let_def)

lemma ToBlock_store: "snd (ToBlock P g (Some db)) = Some (snd (flush P (Alloc g) db))"
  by (simp add: ToBlock_def Let_def split_def)

lemma ToBlock_block_any_db: "fst (ToBlock P g db) = fst (ToBlock P g None)"
proof -
  have "header (fst (ToBlock P g db)) = header (fst (ToBlock P g None))"
    by (simp add: ToBlock_header)
  then show ?thesis by simp
qed

lemma Commit_Inl:
  "commit_error P g = Some e \<Longrightarrow> Commit P g db = (Inl e, snd (flush P (Alloc g) db))"
  by (simp add: Commit_def commit_error_def commit_config_def Let_def split_def ToBlock_store
      ToBlock_header uint_0_iff split: if_splits option.splits)

lemma Commit_Inr:
  "commit_error P g = None \<Longrightarrow> fst (Commit P g db) = Inr (fst (ToBlock P g None))"
  by (simp add: Commit_def commit_error_def commit_config_def Let_def split_def
      ToBlock_header uint_0_iff ToBlock_block_any_db [of P g "Some db"]
      split: if_splits option.splits)

lemma Commit_fails_iff: "fst (Commit P g db) = Inl e \<longleftrightarrow> commit_error P g = Some e"
proof (cases "commit_error P g")
  case None
  then show ?thesis by (simp add: Commit_Inr)
next
  case (Some e')
  then show ?thesis by (simp add: Commit_Inl)
qed

lemmas demo_defs = demo_protocol_def demo_block_hash_def demo_genesis_def demo_alloc_def
  demo_state_root_def demo_config_def demo_CheckCompatible_def isForked_def

lemma demo_root: "fst (flush demo_protocol demo_alloc db) = 8202"
  by (simp add: flush_root demo_defs flush_account_eq account_object_def
      getOrNewStateObject_def newObject_def)

text \<open>
  C1, as stated: a commit that fails with a structural error performs no write, the
  store after the call equals the store before it. This fails: \<open>Commit\<close> starts with
  \<open>ToBlock(db)\<close>, which flushes the allocation into \<open>db\<close> before any check is made. A
  spec with block number 1 and two allocated accounts, committed to an empty store,
  is rejected with the genesis-height error and leaves the flushed state in the store.
\<close>

theorem Commit_error_no_write_counterexample:
  "fst (Commit demo_protocol (demo_genesis\<lparr>Genesis.Number := 1\<rparr>) NewMemoryDatabase) =
     Inl errGenesisNumber
   \<and> snd (Commit demo_protocol (demo_genesis\<lparr>Genesis.Number := 1\<rparr>) NewMemoryDatabase) \<noteq>
       NewMemoryDatabase"
proof -
  have ce: "commit_error demo_protocol (demo_genesis\<lparr>Genesis.Number := 1\<rparr>) =
              Some errGenesisNumber"
    by (simp add: commit_error_def)
  have "snd (Commit demo_protocol (demo_genesis\<lparr>Genesis.Number := 1\<rparr>) NewMemoryDatabase) =
          snd (flush demo_protocol demo_alloc NewMemoryDatabase)"
    by (simp add: Commit_Inl [OF ce]) (simp add: demo_genesis_def)
  then have "state_nodes (snd (Commit demo_protocol (demo_genesis\<lparr>Genesis.Number := 1\<rparr>)
                 NewMemoryDatabase)) 8202 \<noteq> None"
    by (simp add: flush_store demo_root)
  moreover have "state_nodes NewMemoryDatabase 8202 = None"
    by (simp add: NewMemoryDatabase_def)
  ultimately have
    "snd (Commit demo_protocol (demo_genesis\<lparr>Genesis.Number := 1\<rparr>) NewMemoryDatabase) \<noteq>
       NewMemoryDatabase"
    by metis
  then show ?thesis by (simp add: Commit_Inl [OF ce])
qed

text \<open>
  C1, amended: when \<open>Commit\<close> fails, the error is the genesis-height error (exactly
  when the spec's number is nonzero), a fork-order error or the missing-signers error,
  and the only write to the store is the state flushed by \<open>ToBlock\<close>, stored under its
  root. None of the records of the commit sequence is written: the allocation blob,
  total difficulty, block, receipts, canonical hash, head pointers, header number and
  chain configuration are as before the call.
\<close>

theorem Commit_error_writes_state_only:
  assumes "fst (Commit P g db) = Inl e"
  shows "snd (Commit P g db) =
           db\<lparr>state_nodes := (state_nodes db)(fst (flush P (Alloc g) db) \<mapsto>
                 fold flush_account (Alloc g) Map.empty)\<rparr>
       \<and> (e = errGenesisNumber \<or> (\<exists>msg. e = ForkOrderError msg) \<or> e = errCliqueNoSigners)
       \<and> (e = errGenesisNumber \<longleftrightarrow> Genesis.Number g \<noteq> 0)
       \<and> genesis_state (snd (Commit P g db)) = genesis_state db
       \<and> total_difficulty (snd (Commit P g db)) = total_difficulty db
       \<and> blocks (snd (Commit P g db)) = blocks db
       \<and> receipts (snd (Commit P g db)) = receipts db
       \<and> canonical_hash (snd (Commit P g db)) = canonical_hash db
       \<and> head_block_hash (snd (Commit P g db)) = head_block_hash db
       \<and> head_fast_block_hash (snd (Commit P g db)) = head_fast_block_hash db
       \<and> head_header_hash (snd (Commit P g db)) = head_header_hash db
       \<and> header_number (snd (Commit P g db)) = header_number db
       \<and> chain_config (snd (Commit P g db)) = chain_config db"
proof -
  from assms have ce: "commit_error P g = Some e" by (simp add: Commit_fails_iff)
  have s: "snd (Commit P g db) = snd (flush P (Alloc g) db)"
    by (simp add: Commit_Inl [OF ce])
  from ce have k: "e = errGenesisNumber \<or> (\<exists>msg. e = ForkOrderError msg) \<or> e = errCliqueNoSigners"
    by (auto simp: commit_error_def split: if_splits option.splits)
  from ce have n: "e = errGenesisNumber \<longleftrightarrow> Genesis.Number g \<noteq> 0"
    by (auto simp: commit_error_def split: if_splits option.splits)
  have t: "snd (Commit P g db) =
             db\<lparr>state_nodes := (state_nodes db)(fst (flush P (Alloc g) db) \<mapsto>
                   fold flush_account (Alloc g) Map.empty)\<rparr>"
    using s flush_store [of P "Alloc g" db] by simp
  show ?thesis
    using k n by (simp add: t)
qed

theorem Commit_error_writes_state_only_witness:
  "fst (Commit demo_protocol (demo_genesis\<lparr>Genesis.Number := 1\<rparr>) NewMemoryDatabase) =
     Inl errGenesisNumber
   \<and> snd (Commit demo_protocol (demo_genesis\<lparr>Genesis.Number := 1\<rparr>) NewMemoryDatabase) =
       NewMemoryDatabase\<lparr>state_nodes := [8202 \<mapsto> fold flush_account demo_alloc Map.empty]\<rparr>"
proof -
  have ce: "commit_error demo_protocol (demo_genesis\<lparr>Genesis.Number := 1\<rparr>) =
              Some errGenesisNumber"
    by (simp add: commit_error_def)
  have f: "fst (Commit demo_protocol (demo_genesis\<lparr>Genesis.Number := 1\<rparr>) NewMemoryDatabase) =
             Inl errGenesisNumber"
    by (simp add: Commit_Inl [OF ce])
  have a: "Alloc (demo_genesis\<lparr>Genesis.Number := 1\<rparr>) = demo_alloc"
    by (simp add: demo_genesis_def)
  show ?thesis
    using f Commit_error_writes_state_only [OF f]
    by (simp add: a demo_root NewMemoryDatabase_def)
qed

section \<open>Properties of the chain bootstrap reconciler\<close>

lemma Commit_Inr_store:
  assumes "commit_error P g = None"
  shows "snd (Commit P g db) =
     (let b = fst (ToBlock P g None); h = Block_Hash P b; db1 = snd (flush P (Alloc g) db) in
        db1\<lparr>genesis_state := (genesis_state db1)(h \<mapsto> Alloc g),
            total_difficulty := (total_difficulty db1)((h, 0) \<mapsto> Header.Difficulty (header b)),
            blocks := (blocks db1)((h, 0) \<mapsto> b),
            header_number := (header_number db1)(h \<mapsto> 0),
            receipts := (receipts db1)((h, 0) \<mapsto> []),
            canonical_hash := (canonical_hash db1)(0 \<mapsto> h),
            head_block_hash := Some h,
            head_fast_block_hash := Some h,
            head_header_hash := Some h,
            chain_config := (chain_config db1)(h \<mapsto> commit_config P g)\<rparr>)"
proof -
  from assms have n: "Genesis.Number g = 0"
    by (simp add: commit_error_def split: if_splits)
  have b: "fst (ToBlock P g (Some db)) = fst (ToBlock P g None)"
    by (rule ToBlock_block_any_db)
  have hn: "Header.Number (header (fst (ToBlock P g None))) = 0"
    by (simp add: ToBlock_header n)
  have ex: "Extra (header (fst (ToBlock P g None))) = ExtraData g"
    by (simp add: ToBlock_header)
  show ?thesis
    using assms
    by (auto simp add: ex Commit_def commit_error_def commit_config_def Let_def split_def b hn n
        ToBlock_store WriteGenesisState_def WriteTd_def WriteBlock_def WriteReceipts_def
        WriteCanonicalHash_def WriteHeadBlockHash_def WriteHeadFastBlockHash_def
        WriteHeadHeaderHash_def WriteChainConfig_def
        split: if_splits option.splits)
qed

lemma Commit_reads:
  assumes "commit_error P g = None"
  shows "ReadCanonicalHash (snd (Commit P g db)) 0 = Block_Hash P (fst (ToBlock P g None))"
    and "ReadHeader (snd (Commit P g db)) (Block_Hash P (fst (ToBlock P g None))) 0 =
           Some (header (fst (ToBlock P g None)))"
    and "state_New (snd (Commit P g db)) (Root (header (fst (ToBlock P g None))))"
    and "ReadChainConfig (snd (Commit P g db)) (Block_Hash P (fst (ToBlock P g None))) =
           Some (commit_config P g)"
    and "ReadHeadHeaderHash (snd (Commit P g db)) = Block_Hash P (fst (ToBlock P g None))"
    and "ReadHeaderNumber (snd (Commit P g db)) (Block_Hash P (fst (ToBlock P g None))) = Some 0"
  by (simp_all add: Commit_Inr_store [OF assms] Let_def ReadCanonicalHash_def ReadHeader_def
      state_New_def ReadChainConfig_def ReadHeadHeaderHash_def ReadHeaderNumber_def
      flush_store ToBlock_header flush_root)


lemma Setup_healthy:
  assumes healthy: "stored_genesis_healthy P db genesis"
    and stored: "stored = ReadCanonicalHash db 0"
    and dflt: "configOrDefault P genesis stored = Some defaulted"
    and order: "CheckConfigForkOrder P (apply_overrides oa ot defaulted) = None"
    and scfg: "ReadChainConfig db stored = Some storedcfg0"
    and priv: "private = (genesis = None \<and> stored \<noteq> MainnetGenesisHash P)"
    and storedcfg: "storedcfg = (if private then apply_overrides oa ot storedcfg0 else storedcfg0)"
    and newcfg: "newcfg = (if private then storedcfg else apply_overrides oa ot defaulted)"
  shows "SetupGenesisBlockWithOverride P db genesis oa ot =
    (case ReadHeaderNumber db (ReadHeadHeaderHash db) of
       None \<Rightarrow> (Returned (Some newcfg) stored (Some errMissingHeadNumber), db)
     | Some height \<Rightarrow>
        (case CheckCompatible P storedcfg newcfg height of
           None \<Rightarrow> (Returned (Some newcfg) stored None, WriteChainConfig db stored newcfg)
         | Some compatErr \<Rightarrow>
             if height \<noteq> 0 \<and> RewindTo compatErr \<noteq> 0
             then (Returned (Some newcfg) stored (Some (CompatError compatErr)), db)
             else (Returned (Some newcfg) stored None, WriteChainConfig db stored newcfg)))"
proof -
  from healthy obtain hdr where
      cfg: "case genesis of None \<Rightarrow> True | Some g \<Rightarrow> Config g \<noteq> None"
    and nz: "ReadCanonicalHash db 0 \<noteq> 0"
    and hdr: "ReadHeader db (ReadCanonicalHash db 0) 0 = Some hdr"
    and st: "state_New db (Root hdr)"
    and same: "case genesis of None \<Rightarrow> True
               | Some g \<Rightarrow> Block_Hash P (fst (ToBlock P g None)) = ReadCanonicalHash db 0"
    by (auto simp: stored_genesis_healthy_def split: option.splits)
  note dflt' = dflt [unfolded stored] and scfg' = scfg [unfolded stored]
  show ?thesis
  proof (cases genesis)
    case None
    with nz hdr st dflt' order scfg' show ?thesis
      unfolding newcfg storedcfg priv stored
      by (simp add: SetupGenesisBlockWithOverride_def Let_def split: option.splits)
  next
    case (Some g)
    with cfg same have "Config g \<noteq> None"
      and "Block_Hash P (fst (ToBlock P g None)) = ReadCanonicalHash db 0" by simp_all
    with Some nz hdr st dflt' order scfg' show ?thesis
      unfolding newcfg storedcfg priv stored
      by (simp add: SetupGenesisBlockWithOverride_def Let_def split: option.splits)
  qed
qed


text \<open>
  C5, amended: in the healthy-stored-genesis state with no supplied spec (and a defaulted
  candidate that passes the fork-order check, and a stored configuration), the candidate
  is the stored configuration with the overrides re-applied whenever the stored hash is
  not the mainnet hash, the stagenet and testnet hashes included; the defaulted candidate
  (the mainnet configuration with the overrides) is kept only when the stored hash is
  the mainnet hash. The candidate is the configuration returned, and the store is either
  unchanged or has the candidate written under the stored hash.
\<close>

theorem private_network_candidate:
  assumes healthy: "stored_genesis_healthy P db None"
    and stored: "stored = ReadCanonicalHash db 0"
    and dflt: "configOrDefault P None stored = Some defaulted"
    and order: "CheckConfigForkOrder P (apply_overrides oa ot defaulted) = None"
    and scfg: "ReadChainConfig db stored = Some storedcfg0"
    and cand: "candidate = apply_overrides oa ot
                 (if stored = MainnetGenesisHash P then MainnetChainConfig P else storedcfg0)"
  shows "result_config (fst (SetupGenesisBlockWithOverride P db None oa ot)) = Some candidate
       \<and> (snd (SetupGenesisBlockWithOverride P db None oa ot) = db
          \<or> snd (SetupGenesisBlockWithOverride P db None oa ot) = WriteChainConfig db stored candidate)"
proof -
  have d: "stored = MainnetGenesisHash P \<Longrightarrow> defaulted = MainnetChainConfig P"
    using dflt by (simp add: configOrDefault_def)
  show ?thesis
    using d
    by (simp add: Setup_healthy [OF healthy stored dflt order scfg refl refl refl]
        cand result_config_def split: option.splits)
qed


text \<open>
  C3, amended: for every store that holds a canonical genesis hash and the header stored
  under it, and every supplied spec that carries a chain configuration and whose
  recomputed block hash differs from the stored hash, the reconciler returns the
  mismatch error carrying exactly the stored hash and the recomputed hash, together
  with the spec's configuration and the recomputed hash, and the store is unchanged.
  This holds whether or not the stored state can be opened; when no spec is supplied
  and the stored state cannot be opened, it holds of the default genesis.
\<close>

theorem genesis_mismatch_reported:
  assumes cfg: "case genesis of None \<Rightarrow> True | Some g' \<Rightarrow> Config g' \<noteq> None"
    and stored: "stored = ReadCanonicalHash db 0"
    and nz: "stored \<noteq> 0"
    and hdr: "ReadHeader db stored 0 = Some hdr"
    and branch: "genesis \<noteq> None \<or> \<not> state_New db (Root hdr)"
    and g: "g = (case genesis of None \<Rightarrow> DefaultGenesisBlock P | Some g' \<Rightarrow> g')"
    and hash: "hash = Block_Hash P (fst (ToBlock P g None))"
    and differs: "hash \<noteq> stored"
  shows "SetupGenesisBlockWithOverride P db genesis oa ot =
           (Returned (Config g) hash (Some (GenesisMismatchError stored hash)), db)"
proof (cases genesis)
  case None
  with branch have "\<not> state_New db (Root hdr)" by simp
  with None nz hdr differs show ?thesis
    unfolding hash g stored
    by (simp add: SetupGenesisBlockWithOverride_def Let_def)
next
  case (Some g')
  with cfg have "Config g' \<noteq> None" by simp
  with Some nz hdr differs show ?thesis
    unfolding hash g stored
    by (simp add: SetupGenesisBlockWithOverride_def Let_def)
qed

lemma demo_state_root_alloc:
  "state_root demo_protocol (fold flush_account demo_alloc Map.empty) = 8202"
  using demo_root [of NewMemoryDatabase] by (simp add: flush_root)

lemma demo_hash:
  assumes "Alloc g = demo_alloc" and "Genesis.Number g = 0"
  shows "Block_Hash demo_protocol (fst (ToBlock demo_protocol g db)) = 8218"
proof -
  have "Root (header (fst (ToBlock demo_protocol g db))) = 8202"
    by (simp add: ToBlock_header assms demo_state_root_alloc)
  moreover have "Header.Number (header (fst (ToBlock demo_protocol g db))) = 0"
    by (simp add: ToBlock_header assms)
  ultimately show ?thesis
    by (simp add: Block_Hash_def demo_protocol_def demo_block_hash_def)
qed

lemma demo_hash_B:
  "Block_Hash demo_protocol (fst (ToBlock demo_protocol (demo_genesis_B\<lparr>Config := c\<rparr>) db)) = 8418"
proof -
  have "Root (header (fst (ToBlock demo_protocol (demo_genesis_B\<lparr>Config := c\<rparr>) db))) = 8402"
    by (simp add: ToBlock_header demo_genesis_B_def demo_protocol_def demo_state_root_def
        flush_account_eq account_object_def getOrNewStateObject_def newObject_def)
  moreover have "Header.Number (header (fst (ToBlock demo_protocol (demo_genesis_B\<lparr>Config := c\<rparr>) db))) = 0"
    by (simp add: ToBlock_header demo_genesis_B_def demo_genesis_def)
  ultimately show ?thesis
    by (simp add: Block_Hash_def demo_protocol_def demo_block_hash_def)
qed

lemma demo_commit_ok:
  assumes "ArrowGlacierBlock cfg = None" and "Clique cfg = None"
  shows "commit_error demo_protocol (demo_genesis\<lparr>Config := Some cfg\<rparr>) = None"
  using assms
  by (simp add: commit_error_def commit_config_def demo_protocol_def demo_genesis_def
      split: option.splits)

lemma demo_store_reads:
  assumes "ArrowGlacierBlock cfg = None" and "Clique cfg = None"
  shows "ReadCanonicalHash (demo_store cfg) 0 = 8218"
    and "\<exists>hdr. ReadHeader (demo_store cfg) 8218 0 = Some hdr \<and> Root hdr = 8202"
    and "state_New (demo_store cfg) 8202"
    and "ReadChainConfig (demo_store cfg) 8218 = Some cfg"
    and "ReadHeadHeaderHash (demo_store cfg) = 8218"
    and "ReadHeaderNumber (demo_store cfg) 8218 = Some 0"
proof -
  note ok = demo_commit_ok [OF assms]
  have h: "Block_Hash demo_protocol (fst (ToBlock demo_protocol (demo_genesis\<lparr>Config := Some cfg\<rparr>) None)) = 8218"
    by (rule demo_hash) (simp_all add: demo_genesis_def)
  have r: "Root (header (fst (ToBlock demo_protocol (demo_genesis\<lparr>Config := Some cfg\<rparr>) None))) = 8202"
    by (simp add: ToBlock_header demo_state_root_alloc demo_genesis_def)
  show "ReadCanonicalHash (demo_store cfg) 0 = 8218"
    using Commit_reads(1) [OF ok, of NewMemoryDatabase] by (simp add: demo_store_def h)
  show "\<exists>hdr. ReadHeader (demo_store cfg) 8218 0 = Some hdr \<and> Root hdr = 8202"
    using Commit_reads(2) [OF ok, of NewMemoryDatabase] r by (simp add: demo_store_def h)
  show "state_New (demo_store cfg) 8202"
    using Commit_reads(3) [OF ok, of NewMemoryDatabase] by (simp add: demo_store_def r)
  show "ReadChainConfig (demo_store cfg) 8218 = Some cfg"
    using Commit_reads(4) [OF ok, of NewMemoryDatabase]
    by (simp add: demo_store_def h commit_config_def)
  show "ReadHeadHeaderHash (demo_store cfg) = 8218"
    using Commit_reads(5) [OF ok, of NewMemoryDatabase] by (simp add: demo_store_def h)
  show "ReadHeaderNumber (demo_store cfg) 8218 = Some 0"
    using Commit_reads(6) [OF ok, of NewMemoryDatabase] by (simp add: demo_store_def h)
qed

lemma advance_head_reads:
  "ReadCanonicalHash (advance_head db h n) k = ReadCanonicalHash db k"
  "ReadHeader (advance_head db h n) h' k = ReadHeader db h' k"
  "state_New (advance_head db h n) r = state_New db r"
  "ReadChainConfig (advance_head db h n) h' = ReadChainConfig db h'"
  "ReadHeadHeaderHash (advance_head db h n) = h"
  "ReadHeaderNumber (advance_head db h n) h = Some n"
  by (simp_all add: advance_head_def WriteHeadHeaderHash_def ReadCanonicalHash_def ReadHeader_def
      state_New_def ReadChainConfig_def ReadHeadHeaderHash_def ReadHeaderNumber_def)

lemma demo_store_healthy:
  assumes "ArrowGlacierBlock cfg = None" and "Clique cfg = None"
    and "case genesis of None \<Rightarrow> True
         | Some g \<Rightarrow> Config g \<noteq> None \<and> Alloc g = demo_alloc \<and> Genesis.Number g = 0"
  shows "stored_genesis_healthy demo_protocol (advance_head (demo_store cfg) h n) genesis"
    and "stored_genesis_healthy demo_protocol (demo_store cfg) genesis"
proof -
  from demo_store_reads(2) [OF assms(1,2)] obtain hdr where
    hdr: "ReadHeader (demo_store cfg) 8218 0 = Some hdr" "Root hdr = 8202" by blast
  have g: "case genesis of None \<Rightarrow> True
           | Some g \<Rightarrow> Config g \<noteq> None \<and> Block_Hash demo_protocol (fst (ToBlock demo_protocol g None)) = 8218"
    using assms(3) by (auto split: option.splits intro: demo_hash)
  show "stored_genesis_healthy demo_protocol (advance_head (demo_store cfg) h n) genesis"
    using g hdr demo_store_reads(1,3) [OF assms(1,2)]
    by (simp add: stored_genesis_healthy_def advance_head_reads split: option.splits)
  show "stored_genesis_healthy demo_protocol (demo_store cfg) genesis"
    using g hdr demo_store_reads(1,3) [OF assms(1,2)]
    by (simp add: stored_genesis_healthy_def split: option.splits)
qed

text \<open>
  The store after \<open>demo_genesis\<close> has been committed, reconciled with the spec that
  differs in one allocated balance.
\<close>

theorem genesis_mismatch_reported_witness:
  "ReadCanonicalHash (demo_store demo_config) 0 = 8218
   \<and> SetupGenesisBlockWithOverride demo_protocol (demo_store demo_config) (Some demo_genesis_B)
       None None =
       (Returned (Some demo_config) 8418 (Some (GenesisMismatchError 8218 8418)),
        demo_store demo_config)"
proof -
  have c: "ArrowGlacierBlock demo_config = None" "Clique demo_config = None"
    by (simp_all add: demo_config_def)
  from demo_store_reads(2) [OF c] obtain hdr where
    hdr: "ReadHeader (demo_store demo_config) 8218 0 = Some hdr" by blast
  have s: "8218 = ReadCanonicalHash (demo_store demo_config) 0"
    by (simp add: demo_store_reads(1) [OF c])
  have hB: "8418 = Block_Hash demo_protocol (fst (ToBlock demo_protocol demo_genesis_B None))"
    using demo_hash_B [of "Config demo_genesis_B" None] by simp
  have cB: "Config demo_genesis_B = Some demo_config"
    by (simp add: demo_genesis_B_def demo_genesis_def)
  show ?thesis
    using genesis_mismatch_reported
      [of "Some demo_genesis_B" 8218 "demo_store demo_config" hdr demo_genesis_B demo_protocol
          8418 None None, OF _ s _ hdr _ _ hB]
    by (simp add: cB s [symmetric])
qed

text \<open>
  C3, as stated: every supplied spec whose recomputed hash differs from the stored one
  is answered with the mismatch error. This fails for a supplied spec that carries no
  chain configuration: the first guard of the reconciler returns the missing-configuration
  error with the zero hash before the stored hash is read.
\<close>

theorem genesis_mismatch_counterexample:
  "ReadCanonicalHash (demo_store demo_config) 0 = 8218
   \<and> Block_Hash demo_protocol
        (fst (ToBlock demo_protocol (demo_genesis_B\<lparr>Config := None\<rparr>) None)) = 8418
   \<and> SetupGenesisBlockWithOverride demo_protocol (demo_store demo_config)
        (Some (demo_genesis_B\<lparr>Config := None\<rparr>)) None None =
       (Returned (Some (AllEthashProtocolChanges demo_protocol)) 0 (Some errGenesisNoConfig),
        demo_store demo_config)"
proof -
  have c: "ArrowGlacierBlock demo_config = None" "Clique demo_config = None"
    by (simp_all add: demo_config_def)
  show ?thesis
    by (simp add: demo_store_reads(1) [OF c] demo_hash_B SetupGenesisBlockWithOverride_def)
qed







text \<open>
  C5, as stated: when the stored hash is a known public-network hash, the defaulted
  candidate is kept. This fails for the stagenet (and testnet) hash: the test of the
  special case is against the mainnet hash alone. The store holds the stagenet genesis
  with the configuration it was committed with; the default stagenet configuration
  schedules one more fork; reconciling with no spec returns the stored configuration,
  not the default one.
\<close>

theorem private_network_counterexample:
  "stored_genesis_healthy demo_protocol (demo_store demo_config) None
   \<and> ReadCanonicalHash (demo_store demo_config) 0 = StagenetGenesisHash demo_protocol
   \<and> configOrDefault demo_protocol None (StagenetGenesisHash demo_protocol) =
       Some (StagenetChainConfig demo_protocol)
   \<and> ReadChainConfig (demo_store demo_config) (StagenetGenesisHash demo_protocol) =
       Some demo_config
   \<and> result_config (fst (SetupGenesisBlockWithOverride demo_protocol (demo_store demo_config)
        None None None)) = Some demo_config
   \<and> StagenetChainConfig demo_protocol \<noteq> demo_config"
proof -
  let ?db = "demo_store demo_config"
  have c: "ArrowGlacierBlock demo_config = None" "Clique demo_config = None"
    by (simp_all add: demo_config_def)
  have healthy: "stored_genesis_healthy demo_protocol ?db None"
    by (rule demo_store_healthy(2)) (simp_all add: c)
  have sh: "StagenetGenesisHash demo_protocol = 8218" "MainnetGenesisHash demo_protocol = 17"
    "StagenetChainConfig demo_protocol = demo_config\<lparr>ArrowGlacierBlock := Some 100\<rparr>"
    by (simp_all add: demo_protocol_def)
  have stored: "8218 = ReadCanonicalHash ?db 0"
    by (simp add: demo_store_reads(1) [OF c])
  have dflt: "configOrDefault demo_protocol None 8218 = Some (StagenetChainConfig demo_protocol)"
    by (simp add: configOrDefault_def sh)
  have order: "CheckConfigForkOrder demo_protocol
                 (apply_overrides None None (StagenetChainConfig demo_protocol)) = None"
    by (simp add: apply_overrides_def demo_protocol_def demo_config_def)
  have scfg: "ReadChainConfig ?db 8218 = Some demo_config"
    by (simp add: demo_store_reads(4) [OF c])
  have ne: "StagenetChainConfig demo_protocol \<noteq> demo_config"
    by (simp add: sh demo_config_def)
  have "result_config (fst (SetupGenesisBlockWithOverride demo_protocol ?db None None None)) =
          Some demo_config"
    by (simp add: Setup_healthy [OF healthy stored dflt order scfg refl refl refl]
        result_config_def apply_overrides_def sh split: option.splits)
  then show ?thesis
    using healthy dflt scfg ne by (simp add: sh stored [symmetric])
qed

text \<open>The same store, reconciled with an override of the Arrow Glacier block.\<close>

theorem private_network_candidate_witness:
  "stored_genesis_healthy demo_protocol (demo_store demo_config) None
   \<and> result_config (fst (SetupGenesisBlockWithOverride demo_protocol (demo_store demo_config)
        None (Some 7) None)) = Some (demo_config\<lparr>ArrowGlacierBlock := Some 7\<rparr>)"
proof -
  let ?db = "demo_store demo_config"
  have c: "ArrowGlacierBlock demo_config = None" "Clique demo_config = None"
    by (simp_all add: demo_config_def)
  have healthy: "stored_genesis_healthy demo_protocol ?db None"
    by (rule demo_store_healthy(2)) (simp_all add: c)
  have sh: "StagenetGenesisHash demo_protocol = 8218" "MainnetGenesisHash demo_protocol = 17"
    "StagenetChainConfig demo_protocol = demo_config\<lparr>ArrowGlacierBlock := Some 100\<rparr>"
    by (simp_all add: demo_protocol_def)
  have stored: "8218 = ReadCanonicalHash ?db 0"
    by (simp add: demo_store_reads(1) [OF c])
  have dflt: "configOrDefault demo_protocol None 8218 = Some (StagenetChainConfig demo_protocol)"
    by (simp add: configOrDefault_def sh)
  have order: "CheckConfigForkOrder demo_protocol
                 (apply_overrides (Some 7) None (StagenetChainConfig demo_protocol)) = None"
    by (simp add: apply_overrides_def demo_protocol_def demo_config_def)
  have scfg: "ReadChainConfig ?db 8218 = Some demo_config"
    by (simp add: demo_store_reads(4) [OF c])
  have cand: "demo_config\<lparr>ArrowGlacierBlock := Some 7\<rparr> =
      apply_overrides (Some 7) None
        (if 8218 = MainnetGenesisHash demo_protocol then MainnetChainConfig demo_protocol
         else demo_config)"
    by (simp add: apply_overrides_def sh)
  show ?thesis
    using healthy private_network_candidate [OF healthy stored dflt order scfg cand]
    by simp
qed

section \<open>Properties of the priority transactor registry\<close>

subsection \<open>Inserting a list of tuples into a map\<close>

lemma fold_upd_dom:
  "dom (fold (\<lambda>t m. m(k t \<mapsto> v t)) ts m0) = dom m0 \<union> k ` set ts"
  by (induction ts arbitrary: m0) auto

lemma fold_upd_last:
  assumes "\<forall>t' \<in> set ts. k t' \<noteq> k t"
  shows "fold (\<lambda>t m. m(k t \<mapsto> v t)) (pre @ t # ts) m0 (k t) = Some (v t)"
proof -
  have keep: "fold (\<lambda>t m. m(k t \<mapsto> v t)) ts m x = m x" if "\<forall>t' \<in> set ts. k t' \<noteq> x" for m x
    using that by (induction ts arbitrary: m) auto
  show ?thesis using assms by (simp add: keep)
qed

lemma fold_upd_distinct:
  assumes "distinct (map k ts)" and "t \<in> set ts"
  shows "fold (\<lambda>t m. m(k t \<mapsto> v t)) ts m0 (k t) = Some (v t)"
proof -
  from assms(2) obtain pre post where ts: "ts = pre @ t # post"
    by (auto simp: in_set_conv_decomp)
  from assms(1) have "k t \<notin> k ` set post" unfolding ts by simp
  then have "\<forall>t' \<in> set post. k t' \<noteq> k t" by (metis imageI)
  then show ?thesis unfolding ts by (rule fold_upd_last)
qed

lemma fold_upd_range:
  "fold (\<lambda>t m. m(k t \<mapsto> v t)) ts m0 x = Some e \<Longrightarrow> m0 x = Some e \<or> (\<exists>t \<in> set ts. k t = x \<and> e = v t)"
proof (induction ts arbitrary: m0)
  case Nil
  then show ?case by simp
next
  case (Cons a ts)
  from Cons.prems have "fold (\<lambda>t m. m(k t \<mapsto> v t)) ts (m0(k a \<mapsto> v a)) x = Some e"
    by (simp del: fun_upd_apply)
  from Cons.IH [OF this]
  have "(m0(k a \<mapsto> v a)) x = Some e \<or> (\<exists>t \<in> set ts. k t = x \<and> e = v t)" .
  then show ?case
    by (cases "k a = x") auto
qed

subsection \<open>Resolving all transactors\<close>

text \<open>
  C7, amended: \<open>GetPriorityTransactors\<close> returns the empty mapping and no error, without
  a call, when the registry address for the height is zero or no code is deployed at
  it. Otherwise it issues one static call with the gas ceiling; an error of the call or
  of decoding its output is returned to the caller with the empty mapping; on success
  the error is nil, the keys of the mapping are exactly the public keys of the decoded
  tuples, every entry carries the entity name and waiver flag of a decoded tuple with
  that key, namely of the last such tuple, and when the keys of the decoded tuples are
  pairwise distinct every tuple has its own entry.
\<close>

theorem GetPriorityTransactors_resolves:
  assumes addr: "address = GetPriorityTransactorsContractAddress E config blockNumber"
    and call: "StaticCall evm address address (Pack_getTransactors E) (MaxGasLimit E) = (output, err)"
    and key: "key = (\<lambda>t. HexToPublicKey E (PublicKey t))"
    and listing: "listing = fst (fst (GetPriorityTransactors E blockNumber config evm))"
  shows "(address = 0 \<or> GetCode evm address = [] \<longrightarrow>
            GetPriorityTransactors E blockNumber config evm = ((Map.empty, None), []))
       \<and> (address \<noteq> 0 \<and> GetCode evm address \<noteq> [] \<longrightarrow>
            snd (GetPriorityTransactors E blockNumber config evm) =
              [\<lparr>call_caller = address, call_addr = address, call_input = Pack_getTransactors E,
                call_gas = MaxGasLimit E\<rparr>]
            \<and> (\<forall>e. err = Some e \<longrightarrow>
                  fst (GetPriorityTransactors E blockNumber config evm) =
                    (Map.empty, Some (ContractCallError e)))
            \<and> (\<forall>e. err = None \<and> Unpack_getTransactors E output = Inl e \<longrightarrow>
                  fst (GetPriorityTransactors E blockNumber config evm) =
                    (Map.empty, Some (DecodeError e)))
            \<and> (\<forall>metas. err = None \<and> Unpack_getTransactors E output = Inr metas \<longrightarrow>
                  snd (fst (GetPriorityTransactors E blockNumber config evm)) = None
                  \<and> dom listing = key ` set metas
                  \<and> (\<forall>pk entry. listing pk = Some entry \<longrightarrow>
                        (\<exists>t \<in> set metas. key t = pk \<and> entry = transactor_entry t))
                  \<and> (\<forall>pre t post. metas = pre @ t # post \<and> (\<forall>t' \<in> set post. key t' \<noteq> key t) \<longrightarrow>
                        listing (key t) = Some (transactor_entry t))
                  \<and> (distinct (map key metas) \<longrightarrow>
                        (\<forall>t \<in> set metas. listing (key t) = Some (transactor_entry t)))))"
proof -
  have zero: "address = 0 \<or> GetCode evm address = [] \<Longrightarrow>
      GetPriorityTransactors E blockNumber config evm = ((Map.empty, None), [])"
    by (auto simp: GetPriorityTransactors_def Let_def addr)
  have run: "GetPriorityTransactors E blockNumber config evm =
      (let issued = [\<lparr>call_caller = address, call_addr = address,
                       call_input = Pack_getTransactors E, call_gas = MaxGasLimit E\<rparr>]
       in case err of
            Some e \<Rightarrow> ((Map.empty, Some (ContractCallError e)), issued)
          | None \<Rightarrow>
             (case Unpack_getTransactors E output of
                Inl e \<Rightarrow> ((Map.empty, Some (DecodeError e)), issued)
              | Inr metas \<Rightarrow>
                  ((fold (\<lambda>t m. m(key t \<mapsto> transactor_entry t)) metas Map.empty, None), issued)))"
    if "address \<noteq> 0" "GetCode evm address \<noteq> []"
    using that call [unfolded addr]
    by (simp add: GetPriorityTransactors_def Let_def addr key split: option.splits sum.splits)
  show ?thesis
  proof (intro conjI impI allI ballI)
    assume "address = 0 \<or> GetCode evm address = []"
    then show "GetPriorityTransactors E blockNumber config evm = ((Map.empty, None), [])"
      by (rule zero)
  next
    assume a: "address \<noteq> 0 \<and> GetCode evm address \<noteq> []"
    then show "snd (GetPriorityTransactors E blockNumber config evm) =
              [\<lparr>call_caller = address, call_addr = address, call_input = Pack_getTransactors E,
                call_gas = MaxGasLimit E\<rparr>]"
      by (simp add: run Let_def split: option.splits sum.splits)
  next
    fix e assume a: "address \<noteq> 0 \<and> GetCode evm address \<noteq> []" and e: "err = Some e"
    then show "fst (GetPriorityTransactors E blockNumber config evm) =
                    (Map.empty, Some (ContractCallError e))"
      by (simp add: run Let_def)
  next
    fix e assume a: "address \<noteq> 0 \<and> GetCode evm address \<noteq> []"
      and e: "err = None \<and> Unpack_getTransactors E output = Inl e"
    then show "fst (GetPriorityTransactors E blockNumber config evm) =
                    (Map.empty, Some (DecodeError e))"
      by (simp add: run Let_def)
  next
    fix metas assume a: "address \<noteq> 0 \<and> GetCode evm address \<noteq> []"
      and e: "err = None \<and> Unpack_getTransactors E output = Inr metas"
    then show "snd (fst (GetPriorityTransactors E blockNumber config evm)) = None"
      by (simp add: run Let_def)
  next
    fix metas assume a: "address \<noteq> 0 \<and> GetCode evm address \<noteq> []"
      and e: "err = None \<and> Unpack_getTransactors E output = Inr metas"
    then have l: "listing = fold (\<lambda>t m. m(key t \<mapsto> transactor_entry t)) metas Map.empty"
      by (simp add: listing run Let_def)
    show "dom listing = key ` set metas"
      by (simp add: l fold_upd_dom)
  next
    fix metas pk entry assume a: "address \<noteq> 0 \<and> GetCode evm address \<noteq> []"
      and e: "err = None \<and> Unpack_getTransactors E output = Inr metas"
      and f: "listing pk = Some entry"
    from a e have l: "listing = fold (\<lambda>t m. m(key t \<mapsto> transactor_entry t)) metas Map.empty"
      by (simp add: listing run Let_def)
    from f show "\<exists>t \<in> set metas. key t = pk \<and> entry = transactor_entry t"
      unfolding l by (auto dest: fold_upd_range)
  next
    fix metas pre t post assume a: "address \<noteq> 0 \<and> GetCode evm address \<noteq> []"
      and e: "err = None \<and> Unpack_getTransactors E output = Inr metas"
      and d: "metas = pre @ t # post \<and> (\<forall>t' \<in> set post. key t' \<noteq> key t)"
    from a e have l: "listing = fold (\<lambda>t m. m(key t \<mapsto> transactor_entry t)) metas Map.empty"
      by (simp add: listing run Let_def)
    from d have m: "metas = pre @ t # post" and n: "\<forall>t' \<in> set post. key t' \<noteq> key t"
      by simp_all
    show "listing (key t) = Some (transactor_entry t)"
      unfolding l m by (rule fold_upd_last [OF n])
  next
    fix metas t assume a: "address \<noteq> 0 \<and> GetCode evm address \<noteq> []"
      and e: "err = None \<and> Unpack_getTransactors E output = Inr metas"
      and d: "distinct (map key metas)" and t: "t \<in> set metas"
    from a e have l: "listing = fold (\<lambda>t m. m(key t \<mapsto> transactor_entry t)) metas Map.empty"
      by (simp add: listing run Let_def)
    from d t show "listing (key t) = Some (transactor_entry t)"
      unfolding l by (rule fold_upd_distinct)
  qed
qed


lemmas demo_registry_defs = demo_registry_def demo_evm_def demo_evm_no_code_def

text \<open>The registry answering with two tuples of different keys.\<close>

theorem GetPriorityTransactors_resolves_witness:
  "GetPriorityTransactorsContractAddress demo_registry demo_config 100 \<noteq> 0
   \<and> GetCode (demo_evm [2]) (GetPriorityTransactorsContractAddress demo_registry demo_config 100) \<noteq> []
   \<and> snd (fst (GetPriorityTransactors demo_registry 100 demo_config (demo_evm [2]))) = None
   \<and> dom (fst (fst (GetPriorityTransactors demo_registry 100 demo_config (demo_evm [2])))) =
       {''04aa'', ''04bb''}
   \<and> fst (fst (GetPriorityTransactors demo_registry 100 demo_config (demo_evm [2]))) ''04aa'' =
       Some \<lparr>PriorityTransactor.IsGasPriceWaiver = True, EntityName = ''Alice''\<rparr>
   \<and> fst (fst (GetPriorityTransactors demo_registry 100 demo_config (demo_evm [2]))) ''04bb'' =
       Some \<lparr>PriorityTransactor.IsGasPriceWaiver = False, EntityName = ''Bob''\<rparr>"
proof -
  have addr: "0x1000 = GetPriorityTransactorsContractAddress demo_registry demo_config 100"
    by (simp add: demo_registry_def)
  have call: "StaticCall (demo_evm [2]) 0x1000 0x1000 (Pack_getTransactors demo_registry)
                (MaxGasLimit demo_registry) = ([2], None)"
    by (simp add: demo_registry_defs)
  have code: "GetCode (demo_evm [2]) 0x1000 \<noteq> []"
    by (simp add: demo_evm_def)
  have dec: "Unpack_getTransactors demo_registry [2] =
      Inr [\<lparr>PublicKey = ''04aa'', TransactorMeta.IsGasPriceWaiver = True, Name = ''Alice''\<rparr>,
           \<lparr>PublicKey = ''04bb'', TransactorMeta.IsGasPriceWaiver = False, Name = ''Bob''\<rparr>]"
    by (simp add: demo_registry_def)
  have key: "(\<lambda>t. PublicKey t) = (\<lambda>t. HexToPublicKey demo_registry (PublicKey t))"
    by (simp add: demo_registry_def)
  show ?thesis
    using code GetPriorityTransactors_resolves [OF addr call key refl]
    by (simp add: addr [symmetric] dec transactor_entry_def)
qed

text \<open>
  C7, as stated: on success there is one mapping entry per decoded tuple, carrying that
  tuple's entity name and flag. This fails when two decoded tuples have the same public
  key: the mapping is keyed by public key, the later tuple overwrites the earlier, and
  two tuples leave one entry, which carries the second tuple's name and flag.
\<close>

theorem GetPriorityTransactors_duplicate_key_counterexample:
  "Unpack_getTransactors demo_registry
     (fst (StaticCall (demo_evm [3]) 0x1000 0x1000 (Pack_getTransactors demo_registry)
        (MaxGasLimit demo_registry))) =
     Inr [\<lparr>PublicKey = ''04aa'', TransactorMeta.IsGasPriceWaiver = True, Name = ''Alice''\<rparr>,
          \<lparr>PublicKey = ''04aa'', TransactorMeta.IsGasPriceWaiver = False, Name = ''Bob''\<rparr>]
   \<and> snd (fst (GetPriorityTransactors demo_registry 100 demo_config (demo_evm [3]))) = None
   \<and> dom (fst (fst (GetPriorityTransactors demo_registry 100 demo_config (demo_evm [3])))) =
       {HexToPublicKey demo_registry ''04aa''}
   \<and> fst (fst (GetPriorityTransactors demo_registry 100 demo_config (demo_evm [3])))
        (HexToPublicKey demo_registry ''04aa'') =
       Some \<lparr>PriorityTransactor.IsGasPriceWaiver = False, EntityName = ''Bob''\<rparr>
   \<and> fst (fst (GetPriorityTransactors demo_registry 100 demo_config (demo_evm [3])))
        (HexToPublicKey demo_registry ''04aa'') \<noteq>
       Some \<lparr>PriorityTransactor.IsGasPriceWaiver = True, EntityName = ''Alice''\<rparr>"
  by (simp add: GetPriorityTransactors_def demo_registry_defs Let_def transactor_entry_def)

subsection \<open>Resolving one transactor\<close>

text \<open>
  What holds of \<open>getPriorityTransactorByKey\<close>: a zero registry address gives the
  not-found result without a call; with a nonzero address one static call is issued,
  whatever code the state view holds at the address (\<open>GetCode\<close> is never consulted);
  a failure of the call or of decoding is folded into the not-found result.
\<close>

lemma getPriorityTransactorByKey_zero_address:
  "GetPriorityTransactorsContractAddress E config blockNumber = 0 \<Longrightarrow>
   getPriorityTransactorByKey E blockNumber publicKey config evm =
     ((\<lparr>PriorityTransactor.IsGasPriceWaiver = False, EntityName = []\<rparr>, False), [])"
  by (simp add: getPriorityTransactorByKey_def Let_def)

lemma getPriorityTransactorByKey_issues_call:
  "GetPriorityTransactorsContractAddress E config blockNumber \<noteq> 0 \<Longrightarrow>
   snd (getPriorityTransactorByKey E blockNumber publicKey config evm) =
     [\<lparr>call_caller = GetPriorityTransactorsContractAddress E config blockNumber,
       call_addr = GetPriorityTransactorsContractAddress E config blockNumber,
       call_input = Pack_getTransactorByKey E (ToUnprefixedHexString E publicKey),
       call_gas = MaxGasLimit E\<rparr>]"
  by (simp add: getPriorityTransactorByKey_def Let_def split_def split: option.splits sum.splits)

lemma getPriorityTransactorByKey_ignores_code:
  "getPriorityTransactorByKey E blockNumber publicKey config (evm\<lparr>GetCode := gc\<rparr>) =
   getPriorityTransactorByKey E blockNumber publicKey config evm"
  by (simp add: getPriorityTransactorByKey_def Let_def)

lemma getPriorityTransactorByKey_failure_folded:
  assumes "GetPriorityTransactorsContractAddress E config blockNumber = address"
    and "StaticCall evm address address
           (Pack_getTransactorByKey E (ToUnprefixedHexString E publicKey)) (MaxGasLimit E) =
           (output, err)"
    and "err \<noteq> None \<or> (\<exists>e. Unpack_getTransactorByKey E output = Inl e)"
  shows "fst (getPriorityTransactorByKey E blockNumber publicKey config evm) =
           (\<lparr>PriorityTransactor.IsGasPriceWaiver = False, EntityName = []\<rparr>, False)"
  using assms
  by (auto simp: getPriorityTransactorByKey_def Let_def split: option.splits sum.splits)

text \<open>
  C6. The claim is that \<open>getPriorityTransactorByKey\<close> resolves address and code
  presence as \<open>GetPriorityTransactors\<close> does and returns not-found without issuing a
  contract call when no code is deployed at the registry address. The code checks the
  address only. With the registry address set and no code in the state view,
  \<open>GetPriorityTransactors\<close> returns without a call, while
  \<open>getPriorityTransactorByKey\<close> issues the static call and reaches not-found only
  because the empty output fails to decode.
\<close>

theorem getPriorityTransactorByKey_calls_codeless_address:
  "GetPriorityTransactorsContractAddress demo_registry demo_config 100 = 0x1000
   \<and> GetCode demo_evm_no_code 0x1000 = []
   \<and> GetPriorityTransactors demo_registry 100 demo_config demo_evm_no_code =
       ((Map.empty, None), [])
   \<and> getPriorityTransactorByKey demo_registry 100 ''04aa'' demo_config demo_evm_no_code =
       ((\<lparr>PriorityTransactor.IsGasPriceWaiver = False, EntityName = []\<rparr>, False),
        [\<lparr>call_caller = 0x1000, call_addr = 0x1000,
          call_input = Pack_getTransactorByKey demo_registry ''04aa'',
          call_gas = MaxGasLimit demo_registry\<rparr>])"
  by (simp add: GetPriorityTransactors_def getPriorityTransactorByKey_def demo_registry_defs
      Let_def)

section \<open>Properties of the transaction copy\<close>

subsection \<open>The heap operations, component by component\<close>

lemma new_big_simps:
  "fst (new_big h) = next_ref h"
  "ints (snd (new_big h)) = (ints h)(next_ref h \<mapsto> 0)"
  "byte_arrays (snd (new_big h)) = byte_arrays h"
  "tuple_arrays (snd (new_big h)) = tuple_arrays h"
  "next_ref (snd (new_big h)) = Suc (next_ref h)"
  "hash_arrays (snd (new_big h)) = hash_arrays h"
  by (simp_all add: new_big_def)

lemma CopyBytes_simps:
  "fst (CopyBytes b h) = (case b of None \<Rightarrow> None | Some r \<Rightarrow> Some (next_ref h))"
  "ints (snd (CopyBytes b h)) = ints h"
  "byte_arrays (snd (CopyBytes b h)) =
     (case b of
        None \<Rightarrow> byte_arrays h
      | Some r \<Rightarrow> (byte_arrays h)(next_ref h \<mapsto> (case byte_arrays h r of None \<Rightarrow> [] | Some bs \<Rightarrow> bs)))"
  "tuple_arrays (snd (CopyBytes b h)) = tuple_arrays h"
  "next_ref (snd (CopyBytes b h)) = (case b of None \<Rightarrow> next_ref h | Some r \<Rightarrow> Suc (next_ref h))"
  "hash_arrays (snd (CopyBytes b h)) = hash_arrays h"
  by (simp_all add: CopyBytes_def split: option.splits)

lemma make_AccessList_simps:
  "fst (make_AccessList n h) = next_ref h"
  "ints (snd (make_AccessList n h)) = ints h"
  "byte_arrays (snd (make_AccessList n h)) = byte_arrays h"
  "tuple_arrays (snd (make_AccessList n h)) =
     (tuple_arrays h)(next_ref h \<mapsto> replicate n \<lparr>Address = 0, StorageKeys = None\<rparr>)"
  "next_ref (snd (make_AccessList n h)) = Suc (next_ref h)"
  "hash_arrays (snd (make_AccessList n h)) = hash_arrays h"
  by (simp_all add: make_AccessList_def)

lemma copy_AccessList_simps:
  "ints (copy_AccessList dst src h) = ints h"
  "byte_arrays (copy_AccessList dst src h) = byte_arrays h"
  "next_ref (copy_AccessList dst src h) = next_ref h"
  "hash_arrays (copy_AccessList dst src h) = hash_arrays h"
  "tuple_arrays (copy_AccessList dst src h) =
     (case tuple_arrays h dst of
        None \<Rightarrow> tuple_arrays h
      | Some d \<Rightarrow>
          (tuple_arrays h)(dst \<mapsto>
             take (min (length d) (length (case tuples_of h src of None \<Rightarrow> [] | Some ts \<Rightarrow> ts)))
               (case tuples_of h src of None \<Rightarrow> [] | Some ts \<Rightarrow> ts)
             @ drop (min (length d) (length (case tuples_of h src of None \<Rightarrow> [] | Some ts \<Rightarrow> ts))) d))"
  by (simp_all add: copy_AccessList_def Let_def split: option.splits)

lemma set_if_not_nil_simps:
  "ints (set_if_not_nil z p h) r =
     (if r = z
      then (case p of
              None \<Rightarrow> ints h z
            | Some x \<Rightarrow> Some (case ints h x of None \<Rightarrow> 0 | Some v \<Rightarrow> v))
      else ints h r)"
  "byte_arrays (set_if_not_nil z p h) = byte_arrays h"
  "tuple_arrays (set_if_not_nil z p h) = tuple_arrays h"
  "next_ref (set_if_not_nil z p h) = next_ref h"
  "hash_arrays (set_if_not_nil z p h) = hash_arrays h"
  by (simp_all add: set_if_not_nil_def big_Set_def split: option.splits)

lemmas heap_simps = new_big_simps CopyBytes_simps make_AccessList_simps copy_AccessList_simps
  set_if_not_nil_simps

subsection \<open>The copy and the heap it leaves\<close>

lemma copy_fst:
  "fst (copy tx h) =
     \<lparr>ChainID = Some (copy_base tx h + 2),
      PriorityTx.Nonce = PriorityTx.Nonce tx,
      GasTipCap = Some (copy_base tx h + 3),
      GasFeeCap = Some (copy_base tx h + 4),
      Gas = Gas tx,
      To = To tx,
      Value = Some (copy_base tx h + 1),
      Data = (case Data tx of None \<Rightarrow> None | Some r \<Rightarrow> Some (next_ref h)),
      AccessList = Some (copy_base tx h),
      V = Some (copy_base tx h + 5), R = Some (copy_base tx h + 6), S = Some (copy_base tx h + 7),
      PriorityV = Some (copy_base tx h + 8), PriorityR = Some (copy_base tx h + 9),
      PriorityS = Some (copy_base tx h + 10)\<rparr>"
  by (simp add: copy_def Let_def split_def heap_simps copy_base_def)

lemma copy_ints_old:
  "r < next_ref h \<Longrightarrow> ints (snd (copy tx h)) r = ints h r"
  by (cases "Data tx") (simp_all add: copy_def Let_def split_def heap_simps)


lemma copy_ints_new:
  assumes "valid_tx h tx"
  shows
    "ints (snd (copy tx h)) (copy_base tx h + 1) =
       Some (case big h (Value tx) of None \<Rightarrow> 0 | Some v \<Rightarrow> v)"
    and "ints (snd (copy tx h)) (copy_base tx h + 2) =
       Some (case big h (ChainID tx) of None \<Rightarrow> 0 | Some v \<Rightarrow> v)"
    and "ints (snd (copy tx h)) (copy_base tx h + 3) =
       Some (case big h (GasTipCap tx) of None \<Rightarrow> 0 | Some v \<Rightarrow> v)"
    and "ints (snd (copy tx h)) (copy_base tx h + 4) =
       Some (case big h (GasFeeCap tx) of None \<Rightarrow> 0 | Some v \<Rightarrow> v)"
    and "ints (snd (copy tx h)) (copy_base tx h + 5) =
       Some (case big h (V tx) of None \<Rightarrow> 0 | Some v \<Rightarrow> v)"
    and "ints (snd (copy tx h)) (copy_base tx h + 6) =
       Some (case big h (R tx) of None \<Rightarrow> 0 | Some v \<Rightarrow> v)"
    and "ints (snd (copy tx h)) (copy_base tx h + 7) =
       Some (case big h (S tx) of None \<Rightarrow> 0 | Some v \<Rightarrow> v)"
    and "ints (snd (copy tx h)) (copy_base tx h + 8) =
       Some (case big h (PriorityV tx) of None \<Rightarrow> 0 | Some v \<Rightarrow> v)"
    and "ints (snd (copy tx h)) (copy_base tx h + 9) =
       Some (case big h (PriorityR tx) of None \<Rightarrow> 0 | Some v \<Rightarrow> v)"
    and "ints (snd (copy tx h)) (copy_base tx h + 10) =
       Some (case big h (PriorityS tx) of None \<Rightarrow> 0 | Some v \<Rightarrow> v)"
proof -
  note cs = copy_def Let_def split_def heap_simps copy_base_def valid_tx_def big_fields_def
    big_def
  show "ints (snd (copy tx h)) (copy_base tx h + 1) =
       Some (case big h (Value tx) of None \<Rightarrow> 0 | Some v \<Rightarrow> v)"
    using assms by (cases "Data tx"; cases "Value tx") (auto simp: cs)
  show "ints (snd (copy tx h)) (copy_base tx h + 2) =
       Some (case big h (ChainID tx) of None \<Rightarrow> 0 | Some v \<Rightarrow> v)"
    using assms by (cases "Data tx"; cases "ChainID tx") (auto simp: cs)
  show "ints (snd (copy tx h)) (copy_base tx h + 3) =
       Some (case big h (GasTipCap tx) of None \<Rightarrow> 0 | Some v \<Rightarrow> v)"
    using assms by (cases "Data tx"; cases "GasTipCap tx") (auto simp: cs)
  show "ints (snd (copy tx h)) (copy_base tx h + 4) =
       Some (case big h (GasFeeCap tx) of None \<Rightarrow> 0 | Some v \<Rightarrow> v)"
    using assms by (cases "Data tx"; cases "GasFeeCap tx") (auto simp: cs)
  show "ints (snd (copy tx h)) (copy_base tx h + 5) =
       Some (case big h (V tx) of None \<Rightarrow> 0 | Some v \<Rightarrow> v)"
    using assms by (cases "Data tx"; cases "V tx") (auto simp: cs)
  show "ints (snd (copy tx h)) (copy_base tx h + 6) =
       Some (case big h (R tx) of None \<Rightarrow> 0 | Some v \<Rightarrow> v)"
    using assms by (cases "Data tx"; cases "R tx") (auto simp: cs)
  show "ints (snd (copy tx h)) (copy_base tx h + 7) =
       Some (case big h (S tx) of None \<Rightarrow> 0 | Some v \<Rightarrow> v)"
    using assms by (cases "Data tx"; cases "S tx") (auto simp: cs)
  show "ints (snd (copy tx h)) (copy_base tx h + 8) =
       Some (case big h (PriorityV tx) of None \<Rightarrow> 0 | Some v \<Rightarrow> v)"
    using assms by (cases "Data tx"; cases "PriorityV tx") (auto simp: cs)
  show "ints (snd (copy tx h)) (copy_base tx h + 9) =
       Some (case big h (PriorityR tx) of None \<Rightarrow> 0 | Some v \<Rightarrow> v)"
    using assms by (cases "Data tx"; cases "PriorityR tx") (auto simp: cs)
  show "ints (snd (copy tx h)) (copy_base tx h + 10) =
       Some (case big h (PriorityS tx) of None \<Rightarrow> 0 | Some v \<Rightarrow> v)"
    using assms by (cases "Data tx"; cases "PriorityS tx") (auto simp: cs)
qed

lemma copy_big_values:
  assumes "valid_tx h tx"
  shows "big_values (snd (copy tx h)) (fst (copy tx h)) =
           map (\<lambda>p. Some (case big h p of None \<Rightarrow> 0 | Some v \<Rightarrow> v)) (big_fields tx)"
  using copy_ints_new [OF assms]
  by (simp add: big_values_def big_fields_def copy_fst big_def)

lemma copy_arrays_old:
  "r < next_ref h \<Longrightarrow> byte_arrays (snd (copy tx h)) r = byte_arrays h r"
  "r < next_ref h \<Longrightarrow> tuple_arrays (snd (copy tx h)) r = tuple_arrays h r"
  by (cases "Data tx"; simp add: copy_def Let_def split_def heap_simps)+

lemma copy_hash_arrays: "hash_arrays (snd (copy tx h)) = hash_arrays h"
  by (simp add: copy_def Let_def split_def heap_simps)

lemma copy_bytes:
  assumes "valid_tx h tx"
  shows "bytes_of (snd (copy tx h)) (Data (fst (copy tx h))) = bytes_of h (Data tx)"
  using assms
  by (cases "Data tx")
    (auto simp: copy_def Let_def split_def heap_simps valid_tx_def bytes_of_def)

lemma copy_tuples:
  assumes "valid_tx h tx"
  shows "tuples_of (snd (copy tx h)) (AccessList (fst (copy tx h))) =
           Some (case tuples_of h (AccessList tx) of None \<Rightarrow> [] | Some ts \<Rightarrow> ts)"
  using assms
  by (cases "Data tx"; cases "AccessList tx")
    (auto simp: copy_def Let_def split_def heap_simps valid_tx_def tuples_of_def
       len_AccessList_def)

lemma valid_refs_old:
  assumes "valid_tx h tx" and "r \<in> big_refs tx"
  shows "r < next_ref h"
  using assms by (auto simp: valid_tx_def big_refs_def)

lemma copy_refs_new:
  assumes "r \<in> big_refs (fst (copy tx h))"
  shows "next_ref h < r"
  using assms
  by (cases "Data tx") (auto simp: copy_fst big_refs_def big_fields_def copy_base_def)

lemma big_values_frame:
  assumes "r \<notin> big_refs tx"
  shows "big_values (h\<lparr>ints := (ints h)(r \<mapsto> v)\<rparr>) tx = big_values h tx"
proof -
  from assms have n: "Some r \<notin> set (big_fields tx)"
    by (simp add: big_refs_def)
  have "big (h\<lparr>ints := (ints h)(r \<mapsto> v)\<rparr>) p = big h p" if "p \<in> set (big_fields tx)" for p
  proof -
    from that n have "p \<noteq> Some r" by blast
    then show ?thesis by (cases p) (simp_all add: big_def)
  qed
  then show ?thesis by (simp add: big_values_def)
qed

lemma big_values_old:
  assumes "valid_tx h tx"
  shows "big_values (snd (copy tx h)) tx = big_values h tx"
proof -
  have "big (snd (copy tx h)) p = big h p" if "p \<in> set (big_fields tx)" for p
  proof (cases p)
    case None
    then show ?thesis by (simp add: big_def)
  next
    case (Some r)
    with that have "r \<in> big_refs tx" by (simp add: big_refs_def)
    then have "r < next_ref h" by (rule valid_refs_old [OF assms])
    then show ?thesis by (simp add: Some big_def copy_ints_old)
  qed
  then show ?thesis by (simp add: big_values_def)
qed

text \<open>
  C9, amended: for a transaction whose pointers and slices are allocated, \<open>copy\<close>
  returns a transaction with the same nonce, gas and destination; every big-integer
  field of the copy is a non-nil pointer whose value is the value of the source's field,
  or zero where the source's pointer is nil; the payload has the source's bytes (nil for
  nil) and the access list the source's elements (empty for nil). The source reads as
  before. The ten big integers of the copy are pairwise distinct fresh cells, disjoint
  from the source's, and the payload and the access list's array of elements are fresh
  backing arrays: a write through any big-integer pointer of the source leaves every
  big-integer field of the copy unchanged, and the other way round; the same holds for
  a write to the payload bytes and for a write of an element of the access list.
\<close>

theorem copy_fresh_storage:
  assumes valid: "valid_tx h tx" and cp: "copy tx h = (cpy, h')"
  shows "PriorityTx.Nonce cpy = PriorityTx.Nonce tx \<and> Gas cpy = Gas tx \<and> To cpy = To tx
       \<and> big_values h' cpy =
           map (\<lambda>p. Some (case big h p of None \<Rightarrow> 0 | Some v \<Rightarrow> v)) (big_fields tx)
       \<and> bytes_of h' (Data cpy) = bytes_of h (Data tx)
       \<and> tuples_of h' (AccessList cpy) =
           Some (case tuples_of h (AccessList tx) of None \<Rightarrow> [] | Some ts \<Rightarrow> ts)
       \<and> big_values h' tx = big_values h tx
       \<and> bytes_of h' (Data tx) = bytes_of h (Data tx)
       \<and> tuples_of h' (AccessList tx) = tuples_of h (AccessList tx)
       \<and> distinct (big_fields cpy)
       \<and> big_refs cpy \<inter> big_refs tx = {}
       \<and> (Data tx \<noteq> None \<longrightarrow> Data cpy \<noteq> Data tx)
       \<and> AccessList cpy \<noteq> AccessList tx
       \<and> (\<forall>r \<in> big_refs tx. \<forall>v.
             big_values (h'\<lparr>ints := (ints h')(r \<mapsto> v)\<rparr>) cpy = big_values h' cpy)
       \<and> (\<forall>r \<in> big_refs cpy. \<forall>v.
             big_values (h'\<lparr>ints := (ints h')(r \<mapsto> v)\<rparr>) tx = big_values h' tx)
       \<and> (\<forall>r bs. Data tx = Some r \<longrightarrow>
             bytes_of (h'\<lparr>byte_arrays := (byte_arrays h')(r \<mapsto> bs)\<rparr>) (Data cpy) =
               bytes_of h' (Data cpy))
       \<and> (\<forall>r bs. Data cpy = Some r \<longrightarrow>
             bytes_of (h'\<lparr>byte_arrays := (byte_arrays h')(r \<mapsto> bs)\<rparr>) (Data tx) =
               bytes_of h' (Data tx))
       \<and> (\<forall>r ts. AccessList tx = Some r \<longrightarrow>
             tuples_of (h'\<lparr>tuple_arrays := (tuple_arrays h')(r \<mapsto> ts)\<rparr>) (AccessList cpy) =
               tuples_of h' (AccessList cpy))
       \<and> (\<forall>r ts. AccessList cpy = Some r \<longrightarrow>
             tuples_of (h'\<lparr>tuple_arrays := (tuple_arrays h')(r \<mapsto> ts)\<rparr>) (AccessList tx) =
               tuples_of h' (AccessList tx))"
proof -
  from cp have c: "cpy = fst (copy tx h)" and h': "h' = snd (copy tx h)" by simp_all
  have disj: "big_refs cpy \<inter> big_refs tx = {}"
    using valid_refs_old [OF valid] copy_refs_new [of _ tx h] unfolding c
    by (meson disjoint_iff less_asym)
  have data_old: "r < next_ref h" if "Data tx = Some r" for r
    using valid that by (simp add: valid_tx_def)
  have al_old: "r < next_ref h" if "AccessList tx = Some r" for r
    using valid that by (simp add: valid_tx_def)
  have data_new: "next_ref h \<le> r" if "Data cpy = Some r" for r
    using that unfolding c by (simp add: copy_fst split: option.splits)
  have al_new: "next_ref h \<le> r" if "AccessList cpy = Some r" for r
    using that unfolding c by (auto simp: copy_fst copy_base_def split: option.splits)
  have 1: "PriorityTx.Nonce cpy = PriorityTx.Nonce tx \<and> Gas cpy = Gas tx \<and> To cpy = To tx"
    by (simp add: c copy_fst)
  have 2: "big_values h' cpy =
             map (\<lambda>p. Some (case big h p of None \<Rightarrow> 0 | Some v \<Rightarrow> v)) (big_fields tx)"
    unfolding c h' by (rule copy_big_values [OF valid])
  have 3: "bytes_of h' (Data cpy) = bytes_of h (Data tx)"
    unfolding c h' by (rule copy_bytes [OF valid])
  have 4: "tuples_of h' (AccessList cpy) =
             Some (case tuples_of h (AccessList tx) of None \<Rightarrow> [] | Some ts \<Rightarrow> ts)"
    unfolding c h' by (rule copy_tuples [OF valid])
  have 5: "big_values h' tx = big_values h tx"
    unfolding h' by (rule big_values_old [OF valid])
  have 6: "bytes_of h' (Data tx) = bytes_of h (Data tx)"
    using data_old by (cases "Data tx") (simp_all add: bytes_of_def h' copy_arrays_old)
  have 7: "tuples_of h' (AccessList tx) = tuples_of h (AccessList tx)"
    using al_old by (cases "AccessList tx") (simp_all add: tuples_of_def h' copy_arrays_old)
  have 8: "distinct (big_fields cpy)"
    by (simp add: c copy_fst big_fields_def)
  have 9: "Data tx \<noteq> None \<longrightarrow> Data cpy \<noteq> Data tx"
    using data_old data_new by (cases "Data tx"; cases "Data cpy") fastforce+
  have 10: "AccessList cpy \<noteq> AccessList tx"
    using al_old al_new by (cases "AccessList tx"; cases "AccessList cpy") (fastforce simp: c copy_fst)+
  have 11: "\<forall>r \<in> big_refs tx. \<forall>v.
             big_values (h'\<lparr>ints := (ints h')(r \<mapsto> v)\<rparr>) cpy = big_values h' cpy"
    using disj by (auto intro!: big_values_frame)
  have 12: "\<forall>r \<in> big_refs cpy. \<forall>v.
             big_values (h'\<lparr>ints := (ints h')(r \<mapsto> v)\<rparr>) tx = big_values h' tx"
    using disj by (auto intro!: big_values_frame)
  have 13: "\<forall>r bs. Data tx = Some r \<longrightarrow>
             bytes_of (h'\<lparr>byte_arrays := (byte_arrays h')(r \<mapsto> bs)\<rparr>) (Data cpy) =
               bytes_of h' (Data cpy)"
    using data_old data_new by (cases "Data cpy") (fastforce simp: bytes_of_def)+
  have 14: "\<forall>r bs. Data cpy = Some r \<longrightarrow>
             bytes_of (h'\<lparr>byte_arrays := (byte_arrays h')(r \<mapsto> bs)\<rparr>) (Data tx) =
               bytes_of h' (Data tx)"
    using data_old data_new by (cases "Data tx") (fastforce simp: bytes_of_def)+
  have 15: "\<forall>r ts. AccessList tx = Some r \<longrightarrow>
             tuples_of (h'\<lparr>tuple_arrays := (tuple_arrays h')(r \<mapsto> ts)\<rparr>) (AccessList cpy) =
               tuples_of h' (AccessList cpy)"
    using al_old al_new by (cases "AccessList cpy") (fastforce simp: tuples_of_def)+
  have 16: "\<forall>r ts. AccessList cpy = Some r \<longrightarrow>
             tuples_of (h'\<lparr>tuple_arrays := (tuple_arrays h')(r \<mapsto> ts)\<rparr>) (AccessList tx) =
               tuples_of h' (AccessList tx)"
    using al_old al_new by (cases "AccessList tx") (fastforce simp: tuples_of_def)+
  from 1 2 3 4 5 6 7 8 disj 9 10 11 12 13 14 15 16 show ?thesis by blast
qed


text \<open>
  C9, as stated: every field of the copy is equal in value to the source's, and the
  access list occupies storage fully independent of the source. Both fail at \<open>demo_tx\<close>.
  Its signature pointer \<open>V\<close> is nil and the copy's \<open>V\<close> points to a fresh zero, since
  the copy initialises all fields. And the elements of the access list are copied by
  value, so the copy's first element refers to the same array of storage keys as the
  source's: after a write to a storage key through the source (the key 1 overwritten
  by 9) the copy's access list reads the new key.
\<close>

theorem copy_counterexample:
  "V demo_tx = None
   \<and> big (snd (copy demo_tx demo_heap)) (V (fst (copy demo_tx demo_heap))) = Some 0
   \<and> big_values (snd (copy demo_tx demo_heap)) (fst (copy demo_tx demo_heap)) \<noteq>
       big_values demo_heap demo_tx
   \<and> tuples_of (snd (copy demo_tx demo_heap)) (AccessList demo_tx) =
       Some [\<lparr>Address = 7, StorageKeys = Some 6\<rparr>, \<lparr>Address = 8, StorageKeys = None\<rparr>]
   \<and> AccessList (fst (copy demo_tx demo_heap)) \<noteq> AccessList demo_tx
   \<and> access_view (snd (copy demo_tx demo_heap)) (AccessList (fst (copy demo_tx demo_heap))) =
       Some [(7, Some [1, 2]), (8, None)]
   \<and> access_view
        ((snd (copy demo_tx demo_heap))
           \<lparr>hash_arrays := (hash_arrays (snd (copy demo_tx demo_heap)))(6 \<mapsto> [9, 2])\<rparr>)
        (AccessList (fst (copy demo_tx demo_heap))) =
       Some [(7, Some [9, 2]), (8, None)]"
proof -
  let ?cpy = "fst (copy demo_tx demo_heap)" and ?h = "snd (copy demo_tx demo_heap)"
  have v: "valid_tx demo_heap demo_tx"
    by (simp add: valid_tx_def demo_tx_def demo_heap_def big_fields_def)
  have b: "copy_base demo_tx demo_heap = 8"
    by (simp add: copy_base_def demo_tx_def demo_heap_def)
  have n: "V demo_tx = None"
    by (simp add: demo_tx_def)
  have r: "V ?cpy = Some 13" "AccessList ?cpy = Some 8"
    by (simp_all add: copy_fst b)
  have z: "big ?h (V ?cpy) = Some 0"
    using copy_ints_new(5) [OF v] by (simp add: r b n big_def)
  have "big_values ?h ?cpy ! 4 = Some 0"
    using z by (simp add: big_values_def big_fields_def)
  moreover have "big_values demo_heap demo_tx ! 4 = None"
    by (simp add: big_values_def big_fields_def n big_def)
  ultimately have ne: "big_values ?h ?cpy \<noteq> big_values demo_heap demo_tx"
    by auto
  have src: "tuples_of demo_heap (AccessList demo_tx) =
      Some [\<lparr>Address = 7, StorageKeys = Some 6\<rparr>, \<lparr>Address = 8, StorageKeys = None\<rparr>]"
    by (simp add: tuples_of_def demo_tx_def demo_heap_def)
  have old: "tuples_of ?h (AccessList demo_tx) =
      Some [\<lparr>Address = 7, StorageKeys = Some 6\<rparr>, \<lparr>Address = 8, StorageKeys = None\<rparr>]"
    using src by (simp add: tuples_of_def demo_tx_def copy_arrays_old demo_heap_def)
  have new: "tuples_of ?h (AccessList ?cpy) =
      Some [\<lparr>Address = 7, StorageKeys = Some 6\<rparr>, \<lparr>Address = 8, StorageKeys = None\<rparr>]"
    using copy_tuples [OF v] by (simp add: src)
  have al: "AccessList ?cpy \<noteq> AccessList demo_tx"
    unfolding r by (simp add: demo_tx_def)
  have keys: "hash_arrays ?h 6 = Some [1, 2]"
    by (simp add: copy_hash_arrays demo_heap_def)
  have t: "tuples_of (?h\<lparr>hash_arrays := k\<rparr>) p = tuples_of ?h p" for k p
    by (cases p) (simp_all add: tuples_of_def)
  have view: "access_view ?h (AccessList ?cpy) = Some [(7, Some [1, 2]), (8, None)]"
    by (simp add: access_view_def new keys_of_def keys)
  have view': "access_view (?h\<lparr>hash_arrays := (hash_arrays ?h)(6 \<mapsto> [9, 2])\<rparr>) (AccessList ?cpy) =
      Some [(7, Some [9, 2]), (8, None)]"
    by (simp add: access_view_def t new keys_of_def)
  from n z ne old al view view' show ?thesis by blast
qed

text \<open>
  The copy of \<open>demo_tx\<close>; setting the \<open>GasFeeCap\<close> of the original (the integer at
  address 2) to 99 afterwards leaves the copy's ten values as they were.
\<close>

theorem copy_fresh_storage_witness:
  "valid_tx demo_heap demo_tx
   \<and> big_values demo_heap demo_tx =
       [Some 5201421, Some 2, Some 30, Some 1000, None, None, None, None, None, None]
   \<and> big_values (snd (copy demo_tx demo_heap)) (fst (copy demo_tx demo_heap)) =
       [Some 5201421, Some 2, Some 30, Some 1000, Some 0, Some 0, Some 0, Some 0, Some 0, Some 0]
   \<and> GasFeeCap demo_tx = Some 2
   \<and> big_values ((snd (copy demo_tx demo_heap))
         \<lparr>ints := (ints (snd (copy demo_tx demo_heap)))(2 \<mapsto> 99)\<rparr>) (fst (copy demo_tx demo_heap)) =
       [Some 5201421, Some 2, Some 30, Some 1000, Some 0, Some 0, Some 0, Some 0, Some 0, Some 0]
   \<and> bytes_of (snd (copy demo_tx demo_heap)) (Data (fst (copy demo_tx demo_heap))) =
       Some [0xca, 0xfe]
   \<and> tuples_of (snd (copy demo_tx demo_heap)) (AccessList (fst (copy demo_tx demo_heap))) =
       Some [\<lparr>Address = 7, StorageKeys = Some 6\<rparr>, \<lparr>Address = 8, StorageKeys = None\<rparr>]"
proof -
  have v: "valid_tx demo_heap demo_tx"
    by (simp add: valid_tx_def demo_tx_def demo_heap_def big_fields_def)
  have bv: "big_values demo_heap demo_tx =
       [Some 5201421, Some 2, Some 30, Some 1000, None, None, None, None, None, None]"
    by (simp add: big_values_def big_fields_def demo_tx_def demo_heap_def big_def)
  have bf: "map (\<lambda>p. Some (case big demo_heap p of None \<Rightarrow> 0 | Some v \<Rightarrow> v)) (big_fields demo_tx) =
       [Some 5201421, Some 2, Some 30, Some 1000, Some 0, Some 0, Some 0, Some 0, Some 0, Some 0]"
    by (simp add: big_fields_def demo_tx_def demo_heap_def big_def)
  have g: "GasFeeCap demo_tx = Some 2" "2 \<in> big_refs demo_tx"
    by (simp_all add: demo_tx_def big_refs_def big_fields_def)
  have d: "bytes_of demo_heap (Data demo_tx) = Some [0xca, 0xfe]"
    "tuples_of demo_heap (AccessList demo_tx) =
       Some [\<lparr>Address = 7, StorageKeys = Some 6\<rparr>, \<lparr>Address = 8, StorageKeys = None\<rparr>]"
    by (simp_all add: bytes_of_def tuples_of_def demo_tx_def demo_heap_def)
  show ?thesis
    using v bv g copy_fresh_storage [OF v prod.collapse [symmetric]]
    by (simp add: bf d)
qed

end
